theory Spec2Isabelle
  imports Complex_Main
begin

text \<open>
  The sources are three C drivers of a family of derivative-free solvers: an example for
  the linearly-constrained solver, and two tests. The theory first embeds the callbacks
  of the drivers and the \<^verbatim>\<open>main\<close> of the example, then models the solvers they call,
  which are not among the sources, from the specification. The theorems follow in the
  same order.
\<close>

section \<open>The arithmetic of \<^verbatim>\<open>double\<close>\<close>

text \<open>
  The drivers compute with C \<^verbatim>\<open>double\<close>s. How a sum or a product is rounded is fixed
  by the platform, not by the drivers, so the arithmetic is a parameter of every
  definition taken from the drivers: a record of the operations they use. \<open>dlit\<close> is
  the value of a literal (\<^verbatim>\<open>0.1\<close>, \<^verbatim>\<open>2e-2\<close>, or an \<^verbatim>\<open>int\<close> constant converted in place),
  \<open>dnan\<close> is the macro \<^verbatim>\<open>NAN\<close>, \<open>dgt\<close> is \<^verbatim>\<open>>\<close> and \<open>dle\<close> is \<^verbatim>\<open><=\<close>.
  Every theorem stated for an arbitrary \<open>A\<close> holds for IEEE binary64 in particular.
\<close>

record 'd arith =
  dlit :: "rat \<Rightarrow> 'd"
  dadd :: "'d \<Rightarrow> 'd \<Rightarrow> 'd"
  dsub :: "'d \<Rightarrow> 'd \<Rightarrow> 'd"
  dmul :: "'d \<Rightarrow> 'd \<Rightarrow> 'd"
  dfabs :: "'d \<Rightarrow> 'd"
  dgt :: "'d \<Rightarrow> 'd \<Rightarrow> bool"
  dle :: "'d \<Rightarrow> 'd \<Rightarrow> bool"
  dnan :: 'd

text \<open>
  One arithmetic to run the definitions on: rationals without rounding, and one NaN
  that propagates through every operation and compares false with everything, as
  IEEE 754 has it.
\<close>

datatype xval = NaN | Val rat

fun xadd :: "xval \<Rightarrow> xval \<Rightarrow> xval" where
  "xadd (Val a) (Val b) = Val (a + b)"
| "xadd _ _ = NaN"

fun xsub :: "xval \<Rightarrow> xval \<Rightarrow> xval" where
  "xsub (Val a) (Val b) = Val (a - b)"
| "xsub _ _ = NaN"

fun xmul :: "xval \<Rightarrow> xval \<Rightarrow> xval" where
  "xmul (Val a) (Val b) = Val (a * b)"
| "xmul _ _ = NaN"

fun xfabs :: "xval \<Rightarrow> xval" where
  "xfabs (Val a) = Val \<bar>a\<bar>"
| "xfabs NaN = NaN"

fun xgt :: "xval \<Rightarrow> xval \<Rightarrow> bool" where
  "xgt (Val a) (Val b) = (a > b)"
| "xgt _ _ = False"

fun xle :: "xval \<Rightarrow> xval \<Rightarrow> bool" where
  "xle (Val a) (Val b) = (a \<le> b)"
| "xle _ _ = False"

definition exact :: "xval arith" where
  "exact = \<lparr> dlit = Val, dadd = xadd, dsub = xsub, dmul = xmul, dfabs = xfabs,
             dgt = xgt, dle = xle, dnan = NaN \<rparr>"

text \<open>A \<^verbatim>\<open>void *\<close> is an address; the drivers only pass and compare it.\<close>

type_synonym addr = nat

section \<open>\<^verbatim>\<open>c/tests/stress.c\<close>: the callbacks\<close>

text \<open>
  The file-scope variables the callbacks read and write: \<^verbatim>\<open>n\<close> and \<^verbatim>\<open>debug\<close>, the
  \<^verbatim>\<open>static int count\<close> of each callback, and what they have printed (one entry per
  \<^verbatim>\<open>printf("count=%d\n", count)\<close>). A C \<^verbatim>\<open>int\<close> is an integer between
  \<open>INT_MIN\<close> and \<open>INT_MAX\<close>. The counters count evaluations, of which the drivers
  allow a million at most, and \<^verbatim>\<open>++ count\<close> is the successor.
\<close>

record stress_globals =
  sg_n :: int
  sg_debug :: int
  sg_count_fun :: int
  sg_count_fun_con :: int
  sg_printed :: "int list"

text \<open>The ends of the range of a 32-bit \<^verbatim>\<open>int\<close>.\<close>

definition INT_MIN :: int where
  "INT_MIN = - 2147483648"

definition INT_MAX :: int where
  "INT_MAX = 2147483647"

text \<open>
  \<^verbatim>\<open>a - b\<close> on \<^verbatim>\<open>int\<close>: a difference outside the range is an overflow, which is
  undefined in C; the model returns \<open>None\<close> there. Both loops of the callbacks compute
  \<^verbatim>\<open>n-1\<close>, which overflows when \<^verbatim>\<open>n\<close> is \<open>INT_MIN\<close>.
\<close>

definition int_sub :: "int \<Rightarrow> int \<Rightarrow> int option" where
  "int_sub a b = (if INT_MIN \<le> a - b \<and> a - b \<le> INT_MAX then Some (a - b) else None)"

definition stress_m_nlcon :: int where
  "stress_m_nlcon = 200"

definition alpha :: "'d arith \<Rightarrow> 'd" where
  "alpha A = dlit A 4"

text \<open>\<^verbatim>\<open>#define MIN(x, y) (((x) < (y)) ? (x) : (y))\<close>\<close>

definition MIN_macro :: "int \<Rightarrow> int \<Rightarrow> int" where
  "MIN_macro x y = (if x < y then x else y)"

text \<open>
  The summand of the Rosenbrock loop,
  \<^verbatim>\<open>(x[i] - 1.0) * (x[i] - 1.0) + alpha * (x[i+1] - x[i]*x[i]) * (x[i+1] - x[i]*x[i])\<close>,
  with C's left-to-right products.
\<close>

definition rosen_term :: "'d arith \<Rightarrow> 'd \<Rightarrow> 'd \<Rightarrow> 'd" where
  "rosen_term A xi xi1 =
     dadd A (dmul A (dsub A xi (dlit A 1)) (dsub A xi (dlit A 1)))
            (dmul A (dmul A (alpha A) (dsub A xi1 (dmul A xi xi)))
                    (dsub A xi1 (dmul A xi xi)))"

text \<open>
  \<^verbatim>\<open>for (int i = 0; i < n-1; ++ i) *f += ...\<close>. An access outside an array is
  undefined in C; the model returns \<open>None\<close> there, as it does when \<^verbatim>\<open>n-1\<close>
  overflows. \<^verbatim>\<open>++ i\<close> stays in the range, \<open>i\<close> being below \<^verbatim>\<open>n-1\<close>.
\<close>

function rosen_loop :: "'d arith \<Rightarrow> int \<Rightarrow> 'd list \<Rightarrow> int \<Rightarrow> 'd \<Rightarrow> 'd option" where
  "rosen_loop A n x i f =
     (case int_sub n 1 of
        None \<Rightarrow> None
      | Some m \<Rightarrow>
          if i < m then
            (if 0 \<le> i \<and> nat (i + 1) < length x
             then rosen_loop A n x (i + 1)
                    (dadd A f (rosen_term A (x ! nat i) (x ! nat (i + 1))))
             else None)
          else Some f)"
  by pat_completeness auto
termination
  by (relation "measure (\<lambda>(A, n, x, i, f). nat (n - 1 - i))")
     (auto simp: int_sub_def split: if_splits)

text \<open>
  \<^verbatim>\<open>for (int i = 0; i < MIN(m_nlcon, n-1); ++ i) constr[i] = x[i+1] - x[i] * x[i];\<close>
\<close>

function constr_loop :: "'d arith \<Rightarrow> int \<Rightarrow> 'd list \<Rightarrow> int \<Rightarrow> 'd list \<Rightarrow> 'd list option" where
  "constr_loop A n x i constr =
     (case int_sub n 1 of
        None \<Rightarrow> None
      | Some m \<Rightarrow>
          if i < MIN_macro stress_m_nlcon m then
            (if 0 \<le> i \<and> nat (i + 1) < length x \<and> nat i < length constr
             then constr_loop A n x (i + 1)
                    (constr[nat i := dsub A (x ! nat (i + 1)) (dmul A (x ! nat i) (x ! nat i))])
             else None)
          else Some constr)"
  by pat_completeness auto
termination
  by (relation "measure (\<lambda>(A, n, x, i, constr). nat (MIN_macro stress_m_nlcon (n - 1) - i))")
     (auto simp: int_sub_def split: if_splits)

declare rosen_loop.simps [simp del] constr_loop.simps [simp del]

text \<open>
  The counter block of \<^verbatim>\<open>fun\<close>, \<^verbatim>\<open>if (debug) { ++ count; printf("count=%d\n", count); }\<close>,
  and the one of \<^verbatim>\<open>fun_con\<close>, on its own \<^verbatim>\<open>static int count\<close>.
\<close>

definition stress_count_fun :: "stress_globals \<Rightarrow> stress_globals" where
  "stress_count_fun g =
     (if sg_debug g \<noteq> 0
      then g\<lparr> sg_count_fun := sg_count_fun g + 1,
              sg_printed := sg_printed g @ [sg_count_fun g + 1] \<rparr>
      else g)"

definition stress_count_fun_con :: "stress_globals \<Rightarrow> stress_globals" where
  "stress_count_fun_con g =
     (if sg_debug g \<noteq> 0
      then g\<lparr> sg_count_fun_con := sg_count_fun_con g + 1,
              sg_printed := sg_printed g @ [sg_count_fun_con g + 1] \<rparr>
      else g)"

text \<open>
  \<^verbatim>\<open>static void fun(const double x[], double *f, const void *data)\<close> of stress.c. The
  result is the globals and \<^verbatim>\<open>*f\<close> after the call; \<^verbatim>\<open>data\<close> is not used.
\<close>

definition stress_fun ::
  "'d arith \<Rightarrow> stress_globals \<Rightarrow> 'd list \<Rightarrow> addr \<Rightarrow> (stress_globals \<times> 'd) option" where
  "stress_fun A g x data =
     (case rosen_loop A (sg_n g) x 0 (dlit A 0) of
        None \<Rightarrow> None
      | Some f \<Rightarrow> Some (stress_count_fun g, f))"

text \<open>
  \<^verbatim>\<open>static void fun_con(const double x[], double *f, double constr[], const void *data)\<close>
  of stress.c. The result is the globals, \<^verbatim>\<open>*f\<close> and the array \<^verbatim>\<open>constr\<close> after the
  call.
\<close>

definition stress_fun_con ::
  "'d arith \<Rightarrow> stress_globals \<Rightarrow> 'd list \<Rightarrow> 'd list \<Rightarrow> addr \<Rightarrow>
     (stress_globals \<times> 'd \<times> 'd list) option" where
  "stress_fun_con A g x constr data =
     (case rosen_loop A (sg_n g) x 0 (dlit A 0) of
        None \<Rightarrow> None
      | Some f \<Rightarrow>
          (case constr_loop A (sg_n g) x 0 constr of
             None \<Rightarrow> None
           | Some constr' \<Rightarrow> Some (stress_count_fun_con g, f, constr')))"

section \<open>\<^verbatim>\<open>c/tests/data.c\<close>: the callbacks\<close>

text \<open>
  What the callbacks print: \<^verbatim>\<open>printf("count=%d\n", count)\<close> and
  \<^verbatim>\<open>printf("invalid data\n")\<close>.
\<close>

datatype data_line = Count_line int | Invalid_data

text \<open>
  The file-scope variables \<^verbatim>\<open>debug\<close> and \<^verbatim>\<open>data_ref\<close> (the address of
  \<^verbatim>\<open>int_data\<close>), the \<^verbatim>\<open>static int count\<close> of each callback, and the lines printed.
\<close>

record data_globals =
  dg_debug :: int
  dg_data_ref :: addr
  dg_count_fun :: int
  dg_count_fun_con :: int
  dg_printed :: "data_line list"

definition data_count_fun :: "data_globals \<Rightarrow> data_globals" where
  "data_count_fun g =
     (if dg_debug g \<noteq> 0
      then g\<lparr> dg_count_fun := dg_count_fun g + 1,
              dg_printed := dg_printed g @ [Count_line (dg_count_fun g + 1)] \<rparr>
      else g)"

definition data_count_fun_con :: "data_globals \<Rightarrow> data_globals" where
  "data_count_fun_con g =
     (if dg_debug g \<noteq> 0
      then g\<lparr> dg_count_fun_con := dg_count_fun_con g + 1,
              dg_printed := dg_printed g @ [Count_line (dg_count_fun_con g + 1)] \<rparr>
      else g)"

text \<open>
  \<^verbatim>\<open>static void fun(const double x[], double *f, const void *data)\<close> of data.c:
  \<^verbatim>\<open>*f = 5*(x1-3)*(x1-3)+7*(x2-2)*(x2-2)+0.1*(x1+x2)-10;\<close>, the counter block, then
  \<^verbatim>\<open>if (data != data_ref) { printf("invalid data\n"); *f = NAN; }\<close>. The result is the
  globals and \<^verbatim>\<open>*f\<close> after the call.
\<close>

definition data_fun ::
  "'d arith \<Rightarrow> data_globals \<Rightarrow> 'd list \<Rightarrow> addr \<Rightarrow> (data_globals \<times> 'd) option" where
  "data_fun A g x data =
     (if length x < 2 then None
      else
        let x1 = x ! 0;
            x2 = x ! 1;
            f = dsub A
                  (dadd A
                    (dadd A
                      (dmul A (dmul A (dlit A 5) (dsub A x1 (dlit A 3))) (dsub A x1 (dlit A 3)))
                      (dmul A (dmul A (dlit A 7) (dsub A x2 (dlit A 2))) (dsub A x2 (dlit A 2))))
                    (dmul A (dlit A (1 / 10)) (dadd A x1 x2)))
                  (dlit A 10);
            g1 = data_count_fun g
        in if data \<noteq> dg_data_ref g1
           then Some (g1\<lparr> dg_printed := dg_printed g1 @ [Invalid_data] \<rparr>, dnan A)
           else Some (g1, f))"

text \<open>
  \<^verbatim>\<open>static void fun_con(const double x[], double *f, double constr[], const void *data)\<close>
  of data.c: as \<^verbatim>\<open>fun\<close>, with \<^verbatim>\<open>constr[0] = x1*x1 + x2*x2 - 13;\<close> after the
  assignment to \<^verbatim>\<open>*f\<close>. The result is the globals, \<^verbatim>\<open>*f\<close> and \<^verbatim>\<open>constr\<close> after
  the call.
\<close>

definition data_fun_con ::
  "'d arith \<Rightarrow> data_globals \<Rightarrow> 'd list \<Rightarrow> 'd list \<Rightarrow> addr \<Rightarrow>
     (data_globals \<times> 'd \<times> 'd list) option" where
  "data_fun_con A g x constr data =
     (if length x < 2 \<or> length constr < 1 then None
      else
        let x1 = x ! 0;
            x2 = x ! 1;
            f = dsub A
                  (dadd A
                    (dadd A
                      (dmul A (dmul A (dlit A 5) (dsub A x1 (dlit A 3))) (dsub A x1 (dlit A 3)))
                      (dmul A (dmul A (dlit A 7) (dsub A x2 (dlit A 2))) (dsub A x2 (dlit A 2))))
                    (dmul A (dlit A (1 / 10)) (dadd A x1 x2)))
                  (dlit A 10);
            constr1 = constr[0 := dsub A (dadd A (dmul A x1 x1) (dmul A x2 x2)) (dlit A 13)];
            g1 = data_count_fun_con g
        in if data \<noteq> dg_data_ref g1
           then Some (g1\<lparr> dg_printed := dg_printed g1 @ [Invalid_data] \<rparr>, dnan A, constr1)
           else Some (g1, f, constr1))"

text \<open>
  The objective as the specification writes it, \<open>5(a-3)\<^sup>2 + 7(b-2)\<^sup>2 + 0.1(a+b) - 10\<close>,
  a square being the product of the difference with itself and products read from the
  left as C reads them.
\<close>

definition quad_objective :: "'d arith \<Rightarrow> 'd \<Rightarrow> 'd \<Rightarrow> 'd" where
  "quad_objective A a b =
     dsub A
       (dadd A
         (dadd A (dmul A (dmul A (dlit A 5) (dsub A a (dlit A 3))) (dsub A a (dlit A 3)))
                 (dmul A (dmul A (dlit A 7) (dsub A b (dlit A 2))) (dsub A b (dlit A 2))))
         (dmul A (dlit A (1 / 10)) (dadd A a b)))
       (dlit A 10)"

section \<open>\<^verbatim>\<open>c/examples/lincoa/lincoa_example.c\<close>\<close>

text \<open>
  \<^verbatim>\<open>static void fun(const double x[], double *f, const void *data)\<close> of the example:
  the same objective, no counter and no look at \<^verbatim>\<open>data\<close>.
\<close>

definition lincoa_fun :: "'d arith \<Rightarrow> 'd list \<Rightarrow> addr \<Rightarrow> 'd option" where
  "lincoa_fun A x data =
     (if length x < 2 then None
      else
        let x1 = x ! 0;
            x2 = x ! 1
        in Some (dsub A
                  (dadd A
                    (dadd A
                      (dmul A (dmul A (dlit A 5) (dsub A x1 (dlit A 3))) (dsub A x1 (dlit A 3)))
                      (dmul A (dmul A (dlit A 7) (dsub A x2 (dlit A 2))) (dsub A x2 (dlit A 2))))
                    (dmul A (dlit A (1 / 10)) (dadd A x1 x2)))
                  (dlit A 10)))"

text \<open>
  The fields of \<^verbatim>\<open>prima_options\<close> that the drivers set. The structure is declared in
  \<^verbatim>\<open>prima/prima.h\<close>, which is not among the sources; an array field holds the
  contents of the array it points to.
\<close>

record 'd prima_options =
  opt_iprint :: int
  opt_rhoend :: 'd
  opt_maxfun :: int
  opt_data :: addr
  opt_m_ineq :: int
  opt_Aineq :: "'d list"
  opt_bineq :: "'d list"

text \<open>
  What a call of \<^verbatim>\<open>prima_lincoa\<close> leaves behind: the array \<^verbatim>\<open>x\<close>, the slots
  \<^verbatim>\<open>f\<close>, \<^verbatim>\<open>cstrv\<close> and \<^verbatim>\<open>nf\<close>, and the return code.
\<close>

record 'd lincoa_out =
  lo_x :: "'d list"
  lo_f :: 'd
  lo_cstrv :: 'd
  lo_nf :: int
  lo_rc :: int

text \<open>
  The library the example links against is not among the sources. It is a parameter:
  the defaults written by \<^verbatim>\<open>prima_init_options\<close>, the constant
  \<^verbatim>\<open>PRIMA_MSG_EXIT\<close>, the solver \<^verbatim>\<open>prima_lincoa\<close> as a function of its arguments
  (callback, \<^verbatim>\<open>n\<close>, \<^verbatim>\<open>x\<close>, \<^verbatim>\<open>f\<close>, \<^verbatim>\<open>cstrv\<close>, \<^verbatim>\<open>xl\<close>, \<^verbatim>\<open>xu\<close>, \<^verbatim>\<open>nf\<close>, options),
  and \<^verbatim>\<open>prima_get_rc_string\<close>.
\<close>

record 'd prima =
  prima_init_options :: "'d prima_options"
  PRIMA_MSG_EXIT :: int
  prima_lincoa ::
    "('d list \<Rightarrow> addr \<Rightarrow> 'd option) \<Rightarrow> int \<Rightarrow> 'd list \<Rightarrow> 'd \<Rightarrow> 'd \<Rightarrow> 'd list \<Rightarrow> 'd list \<Rightarrow> int \<Rightarrow>
       'd prima_options \<Rightarrow> 'd lincoa_out"
  prima_get_rc_string :: "int \<Rightarrow> string"

text \<open>The arguments of the \<^verbatim>\<open>printf\<close> in \<^verbatim>\<open>main\<close>, in order.\<close>

record 'd lincoa_report =
  pr_x0 :: 'd
  pr_x1 :: 'd
  pr_f :: 'd
  pr_cstrv :: 'd
  pr_rc :: int
  pr_msg :: string
  pr_evals :: int

text \<open>
  \<^verbatim>\<open>main\<close> of the example up to the call of \<^verbatim>\<open>prima_lincoa\<close>: the local
  variables, the options, and what the call leaves behind.
\<close>

definition lincoa_example_call :: "'d arith \<Rightarrow> 'd prima \<Rightarrow> 'd lincoa_out" where
  "lincoa_example_call A P =
     (let n = 2;
          x = [dlit A 0, dlit A 0];
          f = dlit A 0;
          cstrv = dlit A 0;
          options = (prima_init_options P)
            \<lparr> opt_iprint := PRIMA_MSG_EXIT P,
              opt_rhoend := dlit A (1 / 1000),
              opt_maxfun := 200 * n,
              opt_m_ineq := 3,
              opt_Aineq := [dlit A 1, dlit A 0,
                        dlit A 0, dlit A 1,
                        dlit A 1, dlit A 1],
              opt_bineq := [dlit A 4,
                        dlit A 3,
                        dlit A 10] \<rparr>;
          xl = [dlit A (- 6), dlit A (- 6)];
          xu = [dlit A 6, dlit A 6];
          nf = 0
      in prima_lincoa P (lincoa_fun A) n x f cstrv xl xu nf options)"

text \<open>
  The rest of \<^verbatim>\<open>main\<close>: the line it prints and its return value, which is the exit
  status, \<^verbatim>\<open>(fabs(x[0]-3)>2e-2 || fabs(x[1]-2)>2e-2)\<close>. \<^verbatim>\<open>x\<close> is a \<^verbatim>\<open>double[2]\<close>;
  a library that leaves an array of another size is no model of the C call, and the
  result is \<open>None\<close>.
\<close>

definition lincoa_example_main :: "'d arith \<Rightarrow> 'd prima \<Rightarrow> ('d lincoa_report \<times> int) option" where
  "lincoa_example_main A P =
     (let r = lincoa_example_call A P;
          x = lo_x r;
          rc = lo_rc r;
          msg = prima_get_rc_string P rc
      in if length x \<noteq> 2 then None
         else Some
           (\<lparr> pr_x0 = x ! 0, pr_x1 = x ! 1, pr_f = lo_f r, pr_cstrv = lo_cstrv r,
              pr_rc = rc, pr_msg = msg, pr_evals = lo_nf r \<rparr>,
            if dgt A (dfabs A (dsub A (x ! 0) (dlit A 3))) (dlit A (2 / 100)) \<or>
               dgt A (dfabs A (dsub A (x ! 1) (dlit A 2))) (dlit A (2 / 100))
            then 1 else 0))"

text \<open>
  Two libraries to run \<^verbatim>\<open>main\<close> on. The first leaves \<open>(3, 2)\<close> in \<^verbatim>\<open>x\<close> and the
  value of the callback there; the second returns at once and leaves \<^verbatim>\<open>x\<close> as it
  was given, the initial guess \<open>(0, 0)\<close>.
\<close>

definition exact_options :: "xval prima_options" where
  "exact_options = \<lparr> opt_iprint = 0, opt_rhoend = Val (1 / 1000000), opt_maxfun = 0, opt_data = 0,
                      opt_m_ineq = 0, opt_Aineq = [], opt_bineq = [] \<rparr>"

definition lib_at_3_2 :: "xval prima" where
  "lib_at_3_2 = \<lparr> prima_init_options = exact_options, PRIMA_MSG_EXIT = 1,
     prima_lincoa = (\<lambda>cb n x f cstrv xl xu nf opts.
        \<lparr> lo_x = [Val 3, Val 2],
          lo_f = (case cb [Val 3, Val 2] (opt_data opts) of Some v \<Rightarrow> v | None \<Rightarrow> f),
          lo_cstrv = Val 0, lo_nf = 1, lo_rc = 0 \<rparr>),
     prima_get_rc_string = (\<lambda>rc. '''') \<rparr>"

definition lib_no_step :: "xval prima" where
  "lib_no_step = \<lparr> prima_init_options = exact_options, PRIMA_MSG_EXIT = 1,
     prima_lincoa = (\<lambda>cb n x f cstrv xl xu nf opts.
        \<lparr> lo_x = x, lo_f = f, lo_cstrv = cstrv, lo_nf = nf, lo_rc = 3 \<rparr>),
     prima_get_rc_string = (\<lambda>rc. '''') \<rparr>"

text \<open>
  The point is within \<open>2e-2\<close> of \<open>(3, 2)\<close> in each coordinate: \<open>|x[0]-3| \<le> 2e-2\<close> and
  \<open>|x[1]-2| \<le> 2e-2\<close>, with \<^verbatim>\<open><=\<close> of the arithmetic of \<^verbatim>\<open>double\<close>.
\<close>

definition within_tolerance :: "'d arith \<Rightarrow> 'd list \<Rightarrow> bool" where
  "within_tolerance A x \<longleftrightarrow>
     dle A (dfabs A (dsub A (x ! 0) (dlit A 3))) (dlit A (2 / 100)) \<and>
     dle A (dfabs A (dsub A (x ! 1) (dlit A 2))) (dlit A (2 / 100))"

text \<open>
  A \<^verbatim>\<open>double\<close> is a number or a NaN. In IEEE 754 a NaN is the one value that is not
  \<^verbatim>\<open><=\<close> itself.
\<close>

definition is_nan :: "'d arith \<Rightarrow> 'd \<Rightarrow> bool" where
  "is_nan A a \<longleftrightarrow> \<not> dle A a a"

text \<open>
  What \<^verbatim>\<open>main\<close> relies on of the arithmetic, all of it fixed by IEEE 754: of two
  values that are not NaN, one is \<^verbatim>\<open>>\<close> the other exactly when it is not \<^verbatim>\<open><=\<close> it;
  a literal is a finite number; a finite number subtracted from a value that is not NaN,
  and the absolute value of the difference, are not NaN.
\<close>

definition nan_laws :: "'d arith \<Rightarrow> bool" where
  "nan_laws A \<longleftrightarrow>
     (\<forall>a b. \<not> is_nan A a \<and> \<not> is_nan A b \<longrightarrow> dgt A a b = (\<not> dle A a b)) \<and>
     (\<forall>a q. \<not> is_nan A a \<longrightarrow> \<not> is_nan A (dfabs A (dsub A a (dlit A q)))) \<and>
     (\<forall>q. \<not> is_nan A (dlit A q))"

section \<open>The solvers, modelled from the specification\<close>

text \<open>
  The drivers call \<^verbatim>\<open>prima_uobyqa\<close>, \<^verbatim>\<open>prima_newuoa\<close>, \<^verbatim>\<open>prima_bobyqa\<close>,
  \<^verbatim>\<open>prima_lincoa\<close> and \<^verbatim>\<open>prima_cobyla\<close>; the library that defines them is not among
  the sources. This section models it from the specification: the data model (section
  3), the Evaluation Adapter (4.1), the Constraint Model (4.2), the Iteration Controller
  (4.5), the Result Reporter (4.6) and the input checks (7). The interpolation set, the
  quadratic model and the trust-region subproblem (4.3, 4.4) are described there by
  their contracts only; they are a parameter of the model, a record of functions of the
  points evaluated so far. Numbers are reals, as in the specification.
\<close>

text \<open>Modelled from the spec: a variable vector, an ordered sequence of reals (section 6).\<close>

type_synonym vec = "real list"

text \<open>
  Modelled from the spec: the five solver variants of the missing library, one per
  entry point (sections 1 and 6).
\<close>

datatype variant = UOBYQA | NEWUOA | BOBYQA | LINCOA | COBYLA

text \<open>
  Modelled from the spec: the constraint capability of a variant of the missing solver,
  none, bounds, linear or nonlinear (sections 1 and 9): bounds for the bound-constrained
  variant and the richer ones.
\<close>

definition has_bounds :: "variant \<Rightarrow> bool" where
  "has_bounds V \<longleftrightarrow> V = BOBYQA \<or> V = LINCOA \<or> V = COBYLA"

text \<open>
  Modelled from the spec: linear constraints for the linearly-constrained variant of the
  missing solver and the nonlinear one (sections 1 and 9).
\<close>

definition has_linear :: "variant \<Rightarrow> bool" where
  "has_linear V \<longleftrightarrow> V = LINCOA \<or> V = COBYLA"

text \<open>
  Modelled from the spec: nonlinear constraints are evaluated only by the constrained
  variant of the missing solver (section 3).
\<close>

definition has_nonlinear :: "variant \<Rightarrow> bool" where
  "has_nonlinear V \<longleftrightarrow> V = COBYLA"

text \<open>
  Modelled from the spec: a variable bound of the missing solver's problem, which may be
  infinite (section 3).
\<close>

datatype bound = Unbounded | Bound real

text \<open>
  Modelled from the spec: the configuration structure of the missing library with the
  options section 6 recognises: verbosity, initial and final resolution, the maximum
  evaluation count, the opaque user context, and the counts and data of the linear
  inequality, linear equality and nonlinear constraints. A matrix is the list of its
  rows.
\<close>

record configuration =
  cfg_iprint :: int
  cfg_rhobeg :: real
  cfg_rhoend :: real
  cfg_maxfun :: int
  cfg_data :: addr
  cfg_m_ineq :: int
  cfg_A_ineq :: "vec list"
  cfg_b_ineq :: vec
  cfg_m_eq :: int
  cfg_A_eq :: "vec list"
  cfg_b_eq :: vec
  cfg_m_nlcon :: int

text \<open>
  Modelled from the spec: the Problem of the missing solver, immutable for the run
  (section 3): the variant, the dimension, the initial guess, the bounds and the
  configuration.
\<close>

record problem =
  p_variant :: variant
  p_n :: int
  p_x0 :: vec
  p_xl :: "bound list"
  p_xu :: "bound list"
  p_cfg :: configuration

text \<open>
  Modelled from the spec: a SamplePoint of the missing solver, a variable vector with its
  objective value and constraint vector (section 3).
\<close>

record sample =
  s_x :: vec
  s_f :: real
  s_constr :: vec

text \<open>
  Modelled from the spec: the callback the missing solver is given (section 6),
  \<open>objective_constrained(x, context) \<rightarrow> (f, constraints)\<close>. The callback may keep state
  of its own, as the \<^verbatim>\<open>static int count\<close> of the drivers' callbacks (section 9); that
  state is threaded through the calls.
\<close>

type_synonym 's callback = "'s \<Rightarrow> vec \<Rightarrow> addr \<Rightarrow> 's \<times> real \<times> vec"

text \<open>
  Modelled from the spec: the objective-only callback given to the missing solver
  (section 6), \<open>objective(x, context) \<rightarrow> f\<close>.
\<close>

type_synonym 's objective = "'s \<Rightarrow> vec \<Rightarrow> addr \<Rightarrow> 's \<times> real"

subsection \<open>Constraint Model\<close>

text \<open>
  Modelled from the spec: one coordinate of the missing Constraint Model's projection
  onto the box (section 4.2 (a)).
\<close>

definition clip :: "bound \<Rightarrow> bound \<Rightarrow> real \<Rightarrow> real" where
  "clip l u v =
     (let w = (case l of Unbounded \<Rightarrow> v | Bound a \<Rightarrow> max a v)
      in case u of Unbounded \<Rightarrow> w | Bound b \<Rightarrow> min b w)"

text \<open>
  Modelled from the spec: the missing Constraint Model's projection of an arbitrary point
  onto the box defined by the variable bounds (section 4.2 (a)).
\<close>

fun project :: "bound list \<Rightarrow> bound list \<Rightarrow> vec \<Rightarrow> vec" where
  "project (l # ls) (u # us) (v # vs) = clip l u v # project ls us vs"
| "project ls us vs = vs"

text \<open>
  Modelled from the spec: the signed violation amounts of the bounds in the missing
  Constraint Model (section 4.2 (b)): \<open>l - v\<close> for a lower bound, \<open>v - u\<close> for an upper
  bound, positive when the bound is violated.
\<close>

fun bound_amounts :: "bound list \<Rightarrow> bound list \<Rightarrow> vec \<Rightarrow> real list" where
  "bound_amounts (l # ls) (u # us) (v # vs) =
     (case l of Unbounded \<Rightarrow> [] | Bound a \<Rightarrow> [a - v]) @
     (case u of Unbounded \<Rightarrow> [] | Bound b \<Rightarrow> [v - b]) @ bound_amounts ls us vs"
| "bound_amounts ls us vs = []"

text \<open>
  Modelled from the spec: the product of a row of a constraint matrix of the missing
  Constraint Model with the point (section 3, \<open>A_ineq\<close> is \<open>m_ineq \<times> n\<close>).
\<close>

definition dot :: "vec \<Rightarrow> vec \<Rightarrow> real" where
  "dot a x = sum_list (map (\<lambda>(c, v). c * v) (zip a x))"

text \<open>
  Modelled from the spec: the signed violation amounts of the linear inequalities in the
  missing Constraint Model (section 4.2 (b)). The drivers state the constraints as
  \<^verbatim>\<open>x1<=4, x2<=3, x1+x2<=10\<close> for the rows \<open>(1,0), (0,1), (1,1)\<close> and right-hand side
  \<open>(4, 3, 10)\<close>: a row is violated by \<open>row \<cdot> x - b\<close> when that is positive.
\<close>

definition ineq_amounts :: "vec list \<Rightarrow> vec \<Rightarrow> vec \<Rightarrow> real list" where
  "ineq_amounts A b x = map (\<lambda>(row, r). dot row x - r) (zip A b)"

text \<open>
  Modelled from the spec: the violation amounts of the linear equalities, the
  counterpart of the inequalities in the missing Constraint Model (sections 3 and 4.2).
\<close>

definition eq_amounts :: "vec list \<Rightarrow> vec \<Rightarrow> vec \<Rightarrow> real list" where
  "eq_amounts A b x = map (\<lambda>(row, r). \<bar>dot row x - r\<bar>) (zip A b)"

text \<open>
  Modelled from the spec: the violation measure of the missing Constraint Model, "the
  maximum, over all violated constraints, of the signed violation amount (0 if none
  violated)" (section 4.2 (b)).
\<close>

definition max_violation :: "real list \<Rightarrow> real" where
  "max_violation gs = fold max (filter (\<lambda>g. 0 < g) gs) 0"

text \<open>
  Modelled from the spec: the amounts the missing Constraint Model measures for a
  variant (section 4.2 (b), (c)): bounds, linear constraints and, for the nonlinear
  variant, the evaluated constraint vector. The drivers' callbacks state a nonlinear
  constraint as \<^verbatim>\<open>constr[0] = x1*x1 + x2*x2 - 13;// ||x||^2<=13\<close>: it is violated by
  its value when that is positive.
\<close>

definition amounts :: "problem \<Rightarrow> vec \<Rightarrow> vec \<Rightarrow> real list" where
  "amounts P x c =
     (if has_bounds (p_variant P) then bound_amounts (p_xl P) (p_xu P) x else []) @
     (if has_linear (p_variant P)
      then ineq_amounts (cfg_A_ineq (p_cfg P)) (cfg_b_ineq (p_cfg P)) x @
           eq_amounts (cfg_A_eq (p_cfg P)) (cfg_b_eq (p_cfg P)) x
      else []) @
     (if has_nonlinear (p_variant P) then take (nat (cfg_m_nlcon (p_cfg P))) c else [])"

text \<open>
  Modelled from the spec: \<open>cstrv\<close> of the missing Constraint Model, the single scalar
  that measures the violation at a point (section 4.2 and glossary).
\<close>

definition cstrv :: "problem \<Rightarrow> vec \<Rightarrow> vec \<Rightarrow> real" where
  "cstrv P x c = max_violation (amounts P x c)"

text \<open>
  Modelled from the spec: the comparison of candidate points in the missing solver
  (section 4.2), on pairs of \<open>cstrv\<close> and objective value: "a smaller cstrv point is always
  preferred to a larger-cstrv point regardless of objective value; among
  equally-feasible points (cstrv within tolerance), the lower objective wins".
\<close>

definition preferred :: "real \<Rightarrow> real \<times> real \<Rightarrow> real \<times> real \<Rightarrow> bool" where
  "preferred tol a b \<longleftrightarrow>
     (if \<bar>fst a - fst b\<bar> \<le> tol then snd a < snd b else fst a < fst b)"

subsection \<open>The numerical components, as a parameter\<close>

text \<open>
  Modelled from the spec: the two ways the missing Iteration Controller converges, small
  radius and objective below target (section 6, return codes).
\<close>

datatype convergence = Small_radius | Target_reached

text \<open>
  Modelled from the spec: the failures of the missing Iteration Controller, a
  trust-region stall, non-finite model coefficients and a failed allocation (sections
  4.5 and 6).
\<close>

datatype failure = Stalled | Nan_model | Out_of_memory

text \<open>
  Modelled from the spec: what one round of the \<open>Iterating\<close> state of the missing
  controller comes to (section 4.5): a trial point to evaluate, a degenerate set that
  needs a geometry step, convergence, or a breakdown.
\<close>

datatype iteration = Trial vec | Geometry_needed | Stop_converged convergence | Stop_failed failure

text \<open>
  Modelled from the spec: the interpolation set, the quadratic model and the subproblem
  solver of the missing engine (sections 4.3 and 4.4), of which the specification gives
  contracts and no formulas. "Every transition is purely a function of current state,
  model fit quality, and budget remaining": each field is a function of the problem and
  of the points evaluated so far. \<open>k_initial\<close> is the next point of the initial pattern,
  or \<open>None\<close> once the set is complete; \<open>k_iterate\<close> fits the model, solves the subproblem
  and updates the radius; \<open>k_geometry\<close> is the geometry-improving point; \<open>k_feasible\<close>
  is the test for an infeasible linear system; \<open>k_tol\<close> is the tolerance within which two
  values of \<open>cstrv\<close> count as equal.
\<close>

record numerics =
  k_initial :: "problem \<Rightarrow> sample list \<Rightarrow> vec option"
  k_iterate :: "problem \<Rightarrow> sample list \<Rightarrow> iteration"
  k_geometry :: "problem \<Rightarrow> sample list \<Rightarrow> vec"
  k_feasible :: "problem \<Rightarrow> bool"
  k_tol :: real

subsection \<open>Evaluation Adapter\<close>

text \<open>
  Modelled from the spec: the states of the missing Iteration Controller in which it
  runs (section 4.5).
\<close>

datatype phase = Initializing | Iterating | GeometryFixing

text \<open>
  Modelled from the spec: the states in which the missing Iteration Controller ends
  (section 4.5).
\<close>

datatype terminal = Converged convergence | BudgetExhausted | Failed failure

text \<open>Modelled from the spec: the signal of the missing Evaluation Adapter (section 4.1).\<close>

datatype fault = EvaluationBudgetExceeded

text \<open>
  Modelled from the spec: the state owned by one solve of the missing engine (section
  5): the controller's state, the counter of the EvaluationBudget, the points evaluated
  so far, and the state of the caller's callback.
\<close>

record 's state =
  st_phase :: phase
  st_used :: nat
  st_samples :: "sample list"
  st_caller :: 's

text \<open>
  Modelled from the spec: the missing Evaluation Adapter (section 4.1). It "invokes the
  user objective (and, for the constrained variant, constraint) function exactly once
  per call, passing the opaque user context unchanged", "increments the evaluation
  counter unconditionally", and "signals EvaluationBudgetExceeded if invoked after the
  budget is already exhausted".
\<close>

definition evaluate :: "'s callback \<Rightarrow> problem \<Rightarrow> 's state \<Rightarrow> vec \<Rightarrow> fault + 's state" where
  "evaluate cb P s x =
     (if cfg_maxfun (p_cfg P) \<le> int (st_used s) then Inl EvaluationBudgetExceeded
      else case cb (st_caller s) x (cfg_data (p_cfg P)) of
        (u, f, c) \<Rightarrow>
          Inr (s\<lparr> st_used := st_used s + 1,
                 st_samples := st_samples s @ [\<lparr> s_x = x, s_f = f, s_constr = c \<rparr>],
                 st_caller := u \<rparr>))"

subsection \<open>Iteration Controller\<close>

text \<open>
  Modelled from the spec: in the missing engine, "bound constraints are never relaxed;
  they are enforced by clipping/projection before any other constraint is evaluated"
  (section 4.2).
\<close>

definition into_box :: "problem \<Rightarrow> vec \<Rightarrow> vec" where
  "into_box P x = (if has_bounds (p_variant P) then project (p_xl P) (p_xu P) x else x)"

text \<open>
  Modelled from the spec: one evaluation required by the missing controller (section
  4.5). It ends in \<open>BudgetExhausted\<close> "when the next required evaluation would exceed
  max_evaluations", and does not call the adapter in that state; otherwise the point is
  evaluated through the adapter, and the controller goes to the state \<open>ph\<close>.
\<close>

definition probe ::
  "'s callback \<Rightarrow> problem \<Rightarrow> 's state \<Rightarrow> vec \<Rightarrow> phase \<Rightarrow> terminal + 's state" where
  "probe cb P s x ph =
     (if cfg_maxfun (p_cfg P) < int (st_used s) + 1 then Inl BudgetExhausted
      else case evaluate cb P s (into_box P x) of
        Inl EvaluationBudgetExceeded \<Rightarrow> Inl BudgetExhausted
      | Inr s' \<Rightarrow> Inr (s'\<lparr> st_phase := ph \<rparr>))"

text \<open>
  Modelled from the spec: the order of the running states of the missing controller along
  the transitions that evaluate nothing, \<open>Initializing \<rightarrow> Iterating \<rightarrow> GeometryFixing\<close>
  (section 4.5).
\<close>

fun rank :: "phase \<Rightarrow> nat" where
  "rank Initializing = 2"
| "rank Iterating = 1"
| "rank GeometryFixing = 0"

text \<open>
  Modelled from the spec: what is left of the finite, user-bounded evaluation budget of
  the missing controller (section 1), the measure that decreases with every transition.
\<close>

definition remaining :: "problem \<Rightarrow> 's state \<Rightarrow> nat" where
  "remaining P s = 3 * nat (cfg_maxfun (p_cfg P) - int (st_used s)) + rank (st_phase s)"

text \<open>
  Modelled from the spec: the missing Iteration Controller (section 4.5), the state
  machine \<open>Initializing \<rightarrow> Iterating \<rightarrow> GeometryFixing \<rightarrow> Converged | BudgetExhausted |
  Failed\<close>. \<open>Initializing\<close> evaluates every initial sample and goes to \<open>Iterating\<close> once
  the set is complete; \<open>Iterating\<close> evaluates the trial point and updates the set with
  it regardless of acceptance, enters \<open>GeometryFixing\<close> when the set is degenerate, and
  ends when the resolution falls below \<open>rhoend\<close> or on a breakdown; \<open>GeometryFixing\<close>
  evaluates the geometry-improving point and returns to \<open>Iterating\<close>. It returns the
  state it ended in and the state of the solve. It is a total function: every
  transition either evaluates a point or moves down the order of the states.
\<close>

function controller ::
  "numerics \<Rightarrow> 's callback \<Rightarrow> problem \<Rightarrow> 's state \<Rightarrow> terminal \<times> 's state" where
  "controller K cb P s =
     (case st_phase s of
        Initializing \<Rightarrow>
          (case k_initial K P (st_samples s) of
             Some x \<Rightarrow>
               (case probe cb P s x Initializing of
                  Inl t \<Rightarrow> (t, s)
                | Inr s' \<Rightarrow> controller K cb P s')
           | None \<Rightarrow> controller K cb P (s\<lparr> st_phase := Iterating \<rparr>))
      | Iterating \<Rightarrow>
          (case k_iterate K P (st_samples s) of
             Trial x \<Rightarrow>
               (case probe cb P s x Iterating of
                  Inl t \<Rightarrow> (t, s)
                | Inr s' \<Rightarrow> controller K cb P s')
           | Geometry_needed \<Rightarrow> controller K cb P (s\<lparr> st_phase := GeometryFixing \<rparr>)
           | Stop_converged r \<Rightarrow> (Converged r, s)
           | Stop_failed r \<Rightarrow> (Failed r, s))
      | GeometryFixing \<Rightarrow>
          (case probe cb P s (k_geometry K P (st_samples s)) Iterating of
             Inl t \<Rightarrow> (t, s)
           | Inr s' \<Rightarrow> controller K cb P s'))"
  by pat_completeness auto
termination
  by (relation "measure (\<lambda>(K, cb, P, s). remaining P s)")
     (auto simp: remaining_def probe_def evaluate_def
           split: prod.splits fault.splits if_splits sum.splits)

declare controller.simps [simp del]

subsection \<open>Result Reporter\<close>

text \<open>
  Modelled from the spec: the choice of the missing Result Reporter among the points
  evaluated, the one no other point is preferred to in the order they were evaluated
  (section 4.6).
\<close>

fun best_of :: "(sample \<Rightarrow> sample \<Rightarrow> bool) \<Rightarrow> sample \<Rightarrow> sample list \<Rightarrow> sample" where
  "best_of pref b [] = b"
| "best_of pref b (a # as) = best_of pref (if pref a b then a else b) as"

text \<open>
  Modelled from the spec: the merit by which the missing solver ranks a point, its
  feasibility violation, then its objective value (glossary).
\<close>

definition merit :: "problem \<Rightarrow> sample \<Rightarrow> real \<times> real" where
  "merit P a = (cstrv P (s_x a) (s_constr a), s_f a)"

text \<open>
  Modelled from the spec: the return codes of the missing library (section 6): small-radius
  convergence, objective below target, budget exhausted, trust-region stall, invalid
  input, NaN in the model, failed allocation.
\<close>

datatype return_code =
  RC_small_radius | RC_target | RC_budget | RC_stall | RC_invalid_input | RC_nan_model | RC_memory

text \<open>
  Modelled from the spec: the missing Result Reporter "maps terminal state to one of a
  fixed enumeration of return codes" (section 4.6).
\<close>

fun return_code_of :: "terminal \<Rightarrow> return_code" where
  "return_code_of (Converged Small_radius) = RC_small_radius"
| "return_code_of (Converged Target_reached) = RC_target"
| "return_code_of BudgetExhausted = RC_budget"
| "return_code_of (Failed Stalled) = RC_stall"
| "return_code_of (Failed Nan_model) = RC_nan_model"
| "return_code_of (Failed Out_of_memory) = RC_memory"

text \<open>
  Modelled from the spec: the Result of the missing solver (section 3): the best point
  found, its objective value, \<open>cstrv\<close>, the nonlinear constraint values at that point,
  the evaluation count and the status code. There is no objective value when no point
  was evaluated.
\<close>

record result =
  r_x :: vec
  r_f :: "real option"
  r_cstrv :: real
  r_nlconstr :: vec
  r_nf :: nat
  r_rc :: return_code

text \<open>
  Modelled from the spec: the missing Result Reporter (section 4.6), a "pure function of
  the final best-point record and the terminal state" that returns the sample point of
  smallest merit. The specification does not say what is reported when the budget
  allowed no evaluation; the model reports the initial guess, moved into the box.
\<close>

definition report :: "numerics \<Rightarrow> problem \<Rightarrow> terminal \<Rightarrow> 's state \<Rightarrow> result" where
  "report K P t s =
     (case st_samples s of
        [] \<Rightarrow>
          \<lparr> r_x = into_box P (p_x0 P), r_f = None,
            r_cstrv = cstrv P (into_box P (p_x0 P)) [], r_nlconstr = [],
            r_nf = st_used s, r_rc = return_code_of t \<rparr>
      | a # as \<Rightarrow>
          (let b = best_of (\<lambda>a b. preferred (k_tol K) (merit P a) (merit P b)) a as
           in \<lparr> r_x = s_x b, r_f = Some (s_f b),
                r_cstrv = cstrv P (s_x b) (s_constr b),
                r_nlconstr = take (nat (cfg_m_nlcon (p_cfg P))) (s_constr b),
                r_nf = st_used s, r_rc = return_code_of t \<rparr>))"

subsection \<open>Input checks and entry points\<close>

text \<open>
  Modelled from the spec: bounds the missing library accepts, none with
  \<open>xl[i] > xu[i]\<close> (section 7 (a)).
\<close>

fun consistent :: "bound list \<Rightarrow> bound list \<Rightarrow> bool" where
  "consistent (Bound a # ls) (Bound b # us) = (a \<le> b \<and> consistent ls us)"
| "consistent (l # ls) (u # us) = consistent ls us"
| "consistent ls us = True"

text \<open>
  Modelled from the spec: the input the missing library accepts. Section 7 (a) lists the
  input validity errors, "non-positive n, mismatched array lengths, inconsistent bounds,
  infeasible linear system"; section 3 gives the invariant, \<open>n \<ge> 1\<close>, bound arrays of
  length \<open>n\<close>, as many rows in \<open>A_ineq\<close> as \<open>m_ineq\<close>. A variant checks the constraints it
  has.
\<close>

definition valid_input :: "numerics \<Rightarrow> problem \<Rightarrow> bool" where
  "valid_input K P \<longleftrightarrow>
     1 \<le> p_n P \<and> int (length (p_x0 P)) = p_n P \<and>
     (has_bounds (p_variant P) \<longrightarrow>
        int (length (p_xl P)) = p_n P \<and> int (length (p_xu P)) = p_n P \<and>
        consistent (p_xl P) (p_xu P)) \<and>
     (has_linear (p_variant P) \<longrightarrow>
        int (length (cfg_A_ineq (p_cfg P))) = cfg_m_ineq (p_cfg P) \<and>
        int (length (cfg_b_ineq (p_cfg P))) = cfg_m_ineq (p_cfg P) \<and>
        list_all (\<lambda>row. int (length row) = p_n P) (cfg_A_ineq (p_cfg P)) \<and>
        int (length (cfg_A_eq (p_cfg P))) = cfg_m_eq (p_cfg P) \<and>
        int (length (cfg_b_eq (p_cfg P))) = cfg_m_eq (p_cfg P) \<and>
        list_all (\<lambda>row. int (length row) = p_n P) (cfg_A_eq (p_cfg P)) \<and>
        k_feasible K P) \<and>
     (has_nonlinear (p_variant P) \<longrightarrow> 0 \<le> cfg_m_nlcon (p_cfg P))"

text \<open>
  Modelled from the spec: what a call of the missing library leaves behind: the Result
  and the state of the caller's callback.
\<close>

record 's outcome =
  o_result :: result
  o_caller :: 's

text \<open>
  Modelled from the spec: the state in which a solve of the missing engine starts: nothing
  evaluated, the controller \<open>Initializing\<close> (section 4.5).
\<close>

definition initial_state :: "'s \<Rightarrow> 's state" where
  "initial_state u =
     \<lparr> st_phase = Initializing, st_used = 0, st_samples = [], st_caller = u \<rparr>"

text \<open>
  Modelled from the spec: one solve of the missing engine, "one engine parameterized by
  a constraint-capability descriptor" (section 9). Input validity errors are "detected
  before any evaluation and reported without consuming budget" (section 7 (a)), with the
  invalid-input return code; the vector is then the caller's, and \<open>cstrv\<close> is the 0 the
  drivers put in the slot. Otherwise the controller runs and the reporter packages the
  result.
\<close>

definition solve :: "numerics \<Rightarrow> 's callback \<Rightarrow> problem \<Rightarrow> 's \<Rightarrow> 's outcome" where
  "solve K cb P u =
     (if \<not> valid_input K P
      then \<lparr> o_result = \<lparr> r_x = p_x0 P, r_f = None, r_cstrv = 0, r_nlconstr = [], r_nf = 0,
                          r_rc = RC_invalid_input \<rparr>,
             o_caller = u \<rparr>
      else case controller K cb P (initial_state u) of
        (t, s) \<Rightarrow> \<lparr> o_result = report K P t s, o_caller = st_caller s \<rparr>)"

text \<open>
  Modelled from the spec: the objective-only callback as the missing engine calls it,
  with no constraint values (section 6).
\<close>

definition objective_only :: "'s objective \<Rightarrow> 's callback" where
  "objective_only fn = (\<lambda>u x d. case fn u x d of (u', f) \<Rightarrow> (u', f, []))"

text \<open>
  Modelled from the spec: the entry point \<open>uobyqa\<close> of the missing library, a thin adapter
  that selects the variant and forwards to the engine (sections 6 and 9). Its arguments
  are those of the drivers' call \<^verbatim>\<open>prima_uobyqa(&fun, n, x, &f, &nf, &options)\<close>: no
  bounds.
\<close>

definition uobyqa ::
  "numerics \<Rightarrow> 's objective \<Rightarrow> int \<Rightarrow> vec \<Rightarrow> configuration \<Rightarrow> 's \<Rightarrow> 's outcome" where
  "uobyqa K fn n x cfg u =
     solve K (objective_only fn)
       \<lparr> p_variant = UOBYQA, p_n = n, p_x0 = x, p_xl = [], p_xu = [], p_cfg = cfg \<rparr> u"

text \<open>
  Modelled from the spec: the entry point \<open>newuoa\<close> of the missing library (sections 6 and
  9), called as \<^verbatim>\<open>prima_newuoa(&fun, n, x, &f, &nf, &options)\<close>: no bounds.
\<close>

definition newuoa ::
  "numerics \<Rightarrow> 's objective \<Rightarrow> int \<Rightarrow> vec \<Rightarrow> configuration \<Rightarrow> 's \<Rightarrow> 's outcome" where
  "newuoa K fn n x cfg u =
     solve K (objective_only fn)
       \<lparr> p_variant = NEWUOA, p_n = n, p_x0 = x, p_xl = [], p_xu = [], p_cfg = cfg \<rparr> u"

text \<open>
  Modelled from the spec: the entry point \<open>bobyqa\<close> of the missing library (sections 6 and
  9), called as \<^verbatim>\<open>prima_bobyqa(&fun, n, x, &f, xl, xu, &nf, &options)\<close>.
\<close>

definition bobyqa ::
  "numerics \<Rightarrow> 's objective \<Rightarrow> int \<Rightarrow> vec \<Rightarrow> bound list \<Rightarrow> bound list \<Rightarrow> configuration \<Rightarrow> 's \<Rightarrow>
     's outcome" where
  "bobyqa K fn n x xl xu cfg u =
     solve K (objective_only fn)
       \<lparr> p_variant = BOBYQA, p_n = n, p_x0 = x, p_xl = xl, p_xu = xu, p_cfg = cfg \<rparr> u"

text \<open>
  Modelled from the spec: the entry point \<open>lincoa\<close> of the missing library (sections 6 and
  9), called as \<^verbatim>\<open>prima_lincoa(&fun, n, x, &f, &cstrv, xl, xu, &nf, &options)\<close>.
\<close>

definition lincoa ::
  "numerics \<Rightarrow> 's objective \<Rightarrow> int \<Rightarrow> vec \<Rightarrow> bound list \<Rightarrow> bound list \<Rightarrow> configuration \<Rightarrow> 's \<Rightarrow>
     's outcome" where
  "lincoa K fn n x xl xu cfg u =
     solve K (objective_only fn)
       \<lparr> p_variant = LINCOA, p_n = n, p_x0 = x, p_xl = xl, p_xu = xu, p_cfg = cfg \<rparr> u"

text \<open>
  Modelled from the spec: the entry point \<open>cobyla\<close> of the missing library (sections 6 and
  9), called as
  \<^verbatim>\<open>prima_cobyla(&fun_con, n, x, &f, &cstrv, nlconstr, xl, xu, &nf, &options)\<close>.
\<close>

definition cobyla ::
  "numerics \<Rightarrow> 's callback \<Rightarrow> int \<Rightarrow> vec \<Rightarrow> bound list \<Rightarrow> bound list \<Rightarrow> configuration \<Rightarrow> 's \<Rightarrow>
     's outcome" where
  "cobyla K fn n x xl xu cfg u =
     solve K fn
       \<lparr> p_variant = COBYLA, p_n = n, p_x0 = x, p_xl = xl, p_xu = xu, p_cfg = cfg \<rparr> u"

subsection \<open>Inputs to run the model on\<close>

text \<open>
  Numerical components for the examples: the initial set is the initial guess alone, each
  trial point is the last point moved by 4 in every coordinate, and the third point
  evaluated brings convergence.
\<close>

definition pattern_search :: numerics where
  "pattern_search =
     \<lparr> k_initial = (\<lambda>P ss. if ss = [] then Some (p_x0 P) else None),
       k_iterate = (\<lambda>P ss.
          if length ss < 3 then Trial (map (\<lambda>v. v + 4) (s_x (last ss)))
          else Stop_converged Small_radius),
       k_geometry = (\<lambda>P ss. p_x0 P),
       k_feasible = (\<lambda>P. True),
       k_tol = 0 \<rparr>"

text \<open>A callback that counts its calls, with the sum of squares as objective.\<close>

definition sum_squares :: "nat objective" where
  "sum_squares u x d = (u + 1, sum_list (map (\<lambda>v. v * v) x))"

text \<open>
  A configuration with a budget of two evaluations, the context at address 255 and the
  linear constraint \<open>x1 + x2 \<le> 10\<close>.
\<close>

definition example_cfg :: configuration where
  "example_cfg =
     \<lparr> cfg_iprint = 0, cfg_rhobeg = 1, cfg_rhoend = 1 / 1000, cfg_maxfun = 2, cfg_data = 255,
       cfg_m_ineq = 1, cfg_A_ineq = [[1, 1]], cfg_b_ineq = [10],
       cfg_m_eq = 0, cfg_A_eq = [], cfg_b_eq = [], cfg_m_nlcon = 0 \<rparr>"

section \<open>The callbacks of stress.c\<close>

lemma MIN_macro_min: "MIN_macro a b = min a b"
  by (simp add: MIN_macro_def min_def)

text \<open>\<^verbatim>\<open>n-1\<close> is in the range for every \<^verbatim>\<open>int\<close> but \<open>INT_MIN\<close>.\<close>

lemma int_sub_1: "INT_MIN < n \<Longrightarrow> n \<le> INT_MAX \<Longrightarrow> int_sub n 1 = Some (n - 1)"
  by (simp add: int_sub_def INT_MIN_def INT_MAX_def)

lemma int_sub_INT_MIN: "int_sub INT_MIN 1 = None"
  by (simp add: int_sub_def INT_MIN_def INT_MAX_def)

text \<open>The Rosenbrock loop stays inside \<^verbatim>\<open>x\<close> when \<^verbatim>\<open>x\<close> has \<^verbatim>\<open>n\<close> entries.\<close>

lemma rosen_loop_Some:
  "INT_MIN < n \<Longrightarrow> n \<le> INT_MAX \<Longrightarrow> 0 \<le> i \<Longrightarrow> n \<le> 1 \<or> n \<le> int (length x) \<Longrightarrow>
   \<exists>f'. rosen_loop A n x i f = Some f'"
proof (induction A n x i f rule: rosen_loop.induct)
  case (1 A n x i f)
  from "1.prems" have m: "int_sub n 1 = Some (n - 1)" by (simp add: int_sub_1)
  show ?case
  proof (cases "i < n - 1")
    case True
    with "1.prems" have ok: "0 \<le> i \<and> nat (i + 1) < length x" by auto
    from "1.prems" ok have p: "0 \<le> i + 1" by simp
    from "1.IH" [OF m True ok "1.prems"(1,2) p "1.prems"(4)] ok True m show ?thesis
      by (subst rosen_loop.simps) simp
  next
    case False
    with m show ?thesis by (subst rosen_loop.simps) simp
  qed
qed

text \<open>
  The constraint loop started at \<open>i\<close>: it ends, keeps the length of \<^verbatim>\<open>constr\<close>,
  writes the entries from \<open>i\<close> up to the bound and keeps every other entry.
\<close>

lemma constr_loop_frame:
  "INT_MIN < n \<Longrightarrow> n \<le> INT_MAX \<Longrightarrow> 0 \<le> i \<Longrightarrow> n \<le> 1 \<or> n \<le> int (length x) \<Longrightarrow>
   MIN_macro stress_m_nlcon (n - 1) \<le> int (length constr) \<Longrightarrow>
   \<exists>c'. constr_loop A n x i constr = Some c' \<and> length c' = length constr \<and>
     (\<forall>j < length constr. c' ! j =
        (if i \<le> int j \<and> int j < MIN_macro stress_m_nlcon (n - 1)
         then dsub A (x ! (j + 1)) (dmul A (x ! j) (x ! j)) else constr ! j))"
proof (induction A n x i constr rule: constr_loop.induct)
  case (1 A n x i constr)
  let ?K = "MIN_macro stress_m_nlcon (n - 1)"
  from "1.prems" have m: "int_sub n 1 = Some (n - 1)" by (simp add: int_sub_1)
  show ?case
  proof (cases "i < ?K")
    case True
    have K: "?K \<le> n - 1" by (simp add: MIN_macro_def)
    with True "1.prems" have ok: "0 \<le> i \<and> nat (i + 1) < length x \<and> nat i < length constr"
      by auto
    let ?c = "constr[nat i := dsub A (x ! nat (i + 1)) (dmul A (x ! nat i) (x ! nat i))]"
    from "1.prems" ok have p: "0 \<le> i + 1" "?K \<le> int (length ?c)" by auto
    from "1.IH" [OF m True ok "1.prems"(1,2) p(1) "1.prems"(4) p(2)]
    obtain c' where c': "constr_loop A n x (i + 1) ?c = Some c'" "length c' = length ?c"
      "\<forall>j < length ?c. c' ! j =
        (if i + 1 \<le> int j \<and> int j < ?K
         then dsub A (x ! (j + 1)) (dmul A (x ! j) (x ! j)) else ?c ! j)"
      by blast
    have run: "constr_loop A n x i constr = Some c'"
      using True ok c'(1) m by (subst constr_loop.simps) simp
    have "c' ! j = (if i \<le> int j \<and> int j < ?K
         then dsub A (x ! (j + 1)) (dmul A (x ! j) (x ! j)) else constr ! j)"
      if j: "j < length constr" for j
    proof (cases "int j = i")
      case True
      then have jn: "nat i = j" "nat (i + 1) = j + 1" by auto
      from c'(3) j True have "c' ! j = ?c ! j" by simp
      with jn j True \<open>i < ?K\<close> show ?thesis by simp
    next
      case False
      then have "nat i \<noteq> j" using ok by auto
      with c'(3) j False show ?thesis by auto
    qed
    with run c'(2) show ?thesis by simp
  next
    case False
    with m have "constr_loop A n x i constr = Some constr"
      by (subst constr_loop.simps) simp
    moreover from False have "\<not> (i \<le> int j \<and> int j < ?K)" for j by linarith
    ultimately show ?thesis by auto
  qed
qed

text \<open>
  When \<^verbatim>\<open>n\<close> is \<open>INT_MIN\<close> the first loop already overflows: the behaviour of the
  callback is undefined.
\<close>

lemma stress_fun_con_overflow:
  "sg_n g = INT_MIN \<Longrightarrow> stress_fun_con A g x constr data = None"
  by (simp add: stress_fun_con_def rosen_loop.simps int_sub_INT_MIN)

text \<open>
  C10. \<^verbatim>\<open>fun_con\<close> of stress.c, called while the \<^verbatim>\<open>int\<close> \<^verbatim>\<open>n\<close> is not \<open>INT_MIN\<close>
  (so that \<^verbatim>\<open>n-1\<close> does not overflow), with an \<^verbatim>\<open>x\<close> of at least \<^verbatim>\<open>n\<close> entries and
  a \<^verbatim>\<open>constr\<close> of at least \<open>min(m_nlcon, n-1)\<close> entries, returns; afterwards
  \<^verbatim>\<open>constr[j]\<close> is \<^verbatim>\<open>x[j+1] - x[j]*x[j]\<close> for every \<open>j\<close> below \<open>min(m_nlcon, n-1)\<close> and is
  what it was before the call for every other \<open>j\<close>. In particular, when
  \<open>n \<le> m_nlcon\<close>, the entries from \<open>n-1\<close> on are as before the call.
\<close>

theorem stress_fun_con_frame:
  assumes n: "INT_MIN < sg_n g" "sg_n g \<le> INT_MAX"
    and x: "sg_n g \<le> 1 \<or> sg_n g \<le> int (length x)"
    and c: "min stress_m_nlcon (sg_n g - 1) \<le> int (length constr)"
  shows "\<exists>g' f' constr'.
      stress_fun_con A g x constr data = Some (g', f', constr') \<and>
      length constr' = length constr \<and>
      (\<forall>j < length constr. constr' ! j =
         (if int j < min stress_m_nlcon (sg_n g - 1)
          then dsub A (x ! (j + 1)) (dmul A (x ! j) (x ! j)) else constr ! j)) \<and>
      (sg_n g \<le> stress_m_nlcon \<longrightarrow>
         (\<forall>j < length constr. sg_n g - 1 \<le> int j \<longrightarrow> constr' ! j = constr ! j))"
proof -
  from rosen_loop_Some [of "sg_n g" 0 x A "dlit A 0"] n x
  obtain f' where f': "rosen_loop A (sg_n g) x 0 (dlit A 0) = Some f'" by auto
  from constr_loop_frame [of "sg_n g" 0 x constr A] n x c
  obtain c' where c': "constr_loop A (sg_n g) x 0 constr = Some c'"
      "length c' = length constr"
      "\<forall>j < length constr. c' ! j =
         (if int j < min stress_m_nlcon (sg_n g - 1)
          then dsub A (x ! (j + 1)) (dmul A (x ! j) (x ! j)) else constr ! j)"
    by (auto simp: MIN_macro_min)
  have run: "stress_fun_con A g x constr data = Some (stress_count_fun_con g, f', c')"
    by (simp add: stress_fun_con_def f' c'(1))
  from c'(3) have "\<forall>j < length constr. sg_n g - 1 \<le> int j \<longrightarrow> c' ! j = constr ! j"
    by auto
  with run c'(2,3) show ?thesis by blast
qed

text \<open>
  The theorem at \<open>n = 3\<close>, \<open>x = (1, 2, 3)\<close> and a \<^verbatim>\<open>constr\<close> of three entries 9: the
  call leaves \<open>(1, -1, 9)\<close>, and \<^verbatim>\<open>*f\<close> is 9.
\<close>

theorem stress_fun_con_frame_witness:
  "(let g = \<lparr> sg_n = 3, sg_debug = 0, sg_count_fun = 0, sg_count_fun_con = 0,
               sg_printed = [] \<rparr>;
        x = [Val 1, Val 2, Val 3]; constr = [Val 9, Val 9, Val 9]
    in INT_MIN < sg_n g \<and> sg_n g \<le> INT_MAX \<and>
       (sg_n g \<le> 1 \<or> sg_n g \<le> int (length x)) \<and>
       min stress_m_nlcon (sg_n g - 1) \<le> int (length constr) \<and>
       stress_fun_con exact g x constr 0 = Some (g, Val 9, [Val 1, Val (- 1), Val 9]) \<and>
       (\<exists>g' f' constr'.
          stress_fun_con exact g x constr 0 = Some (g', f', constr') \<and>
          length constr' = length constr \<and>
          (\<forall>j < length constr. constr' ! j =
             (if int j < min stress_m_nlcon (sg_n g - 1)
              then dsub exact (x ! (j + 1)) (dmul exact (x ! j) (x ! j)) else constr ! j)) \<and>
          (sg_n g \<le> stress_m_nlcon \<longrightarrow>
             (\<forall>j < length constr. sg_n g - 1 \<le> int j \<longrightarrow> constr' ! j = constr ! j))))"
proof -
  let ?g = "\<lparr> sg_n = 3, sg_debug = 0, sg_count_fun = 0, sg_count_fun_con = 0,
               sg_printed = [] \<rparr>"
  let ?x = "[Val 1, Val 2, Val 3]"
  let ?c = "[Val 9, Val 9, Val 9]"
  have r: "INT_MIN < sg_n ?g" "sg_n ?g \<le> INT_MAX" by (simp_all add: INT_MIN_def INT_MAX_def)
  have h1: "sg_n ?g \<le> 1 \<or> sg_n ?g \<le> int (length ?x)" by simp
  have h2: "min stress_m_nlcon (sg_n ?g - 1) \<le> int (length ?c)"
    by (simp add: stress_m_nlcon_def)
  have ev: "stress_fun_con exact ?g ?x ?c 0 = Some (?g, Val 9, [Val 1, Val (- 1), Val 9])"
    by (simp add: stress_fun_con_def rosen_loop.simps constr_loop.simps rosen_term_def
        alpha_def exact_def MIN_macro_def stress_m_nlcon_def stress_count_fun_con_def
        int_sub_def INT_MIN_def INT_MAX_def)
  from stress_fun_con_frame [OF r h1 h2, of exact 0] r h1 h2 ev show ?thesis
    unfolding Let_def by blast
qed

section \<open>The callbacks of data.c\<close>

text \<open>Without rounding, the objective is the polynomial.\<close>

lemma quad_objective_exact:
  "quad_objective exact (Val a) (Val b) =
     Val (5 * (a - 3)\<^sup>2 + 7 * (b - 2)\<^sup>2 + (a + b) / 10 - 10)"
  by (simp add: quad_objective_def exact_def power2_eq_square algebra_simps)

text \<open>
  C8. \<^verbatim>\<open>fun\<close> of data.c, called with an \<^verbatim>\<open>x\<close> of at least two entries, leaves in
  \<^verbatim>\<open>*f\<close> the objective \<open>5(x[0]-3)\<^sup>2 + 7(x[1]-2)\<^sup>2 + 0.1(x[0]+x[1]) - 10\<close> when \<^verbatim>\<open>data\<close>
  equals \<^verbatim>\<open>data_ref\<close> and NaN when it differs, whatever \<^verbatim>\<open>debug\<close> and the counter
  are; with \<^verbatim>\<open>debug\<close> off and the matching \<^verbatim>\<open>data\<close> it changes nothing else.
  \<^verbatim>\<open>fun_con\<close> does the same and leaves \<^verbatim>\<open>x[0]*x[0] + x[1]*x[1] - 13\<close> in
  \<^verbatim>\<open>constr[0]\<close> on every call, matching \<^verbatim>\<open>data\<close> or not.
\<close>

theorem data_callbacks_value:
  assumes x: "2 \<le> length x" and c: "1 \<le> length constr"
  shows "(\<exists>g'. data_fun A g x data =
            Some (g', if data = dg_data_ref g then quad_objective A (x ! 0) (x ! 1) else dnan A) \<and>
            (dg_debug g = 0 \<and> data = dg_data_ref g \<longrightarrow> g' = g)) \<and>
         (\<exists>g'. data_fun_con A g x constr data =
            Some (g', if data = dg_data_ref g then quad_objective A (x ! 0) (x ! 1) else dnan A,
                  constr[0 := dsub A (dadd A (dmul A (x ! 0) (x ! 0)) (dmul A (x ! 1) (x ! 1)))
                                     (dlit A 13)]) \<and>
            (dg_debug g = 0 \<and> data = dg_data_ref g \<longrightarrow> g' = g))"
proof -
  have r1: "dg_data_ref (data_count_fun g) = dg_data_ref g"
    and r2: "dg_data_ref (data_count_fun_con g) = dg_data_ref g"
    by (simp_all add: data_count_fun_def data_count_fun_con_def)
  have d1: "dg_debug g = 0 \<Longrightarrow> data_count_fun g = g"
    and d2: "dg_debug g = 0 \<Longrightarrow> data_count_fun_con g = g"
    by (simp_all add: data_count_fun_def data_count_fun_con_def)
  from x have lx: "\<not> length x < 2" by simp
  from c have lc: "constr \<noteq> []" by auto
  have "\<exists>g'. data_fun A g x data =
            Some (g', if data = dg_data_ref g then quad_objective A (x ! 0) (x ! 1) else dnan A) \<and>
            (dg_debug g = 0 \<and> data = dg_data_ref g \<longrightarrow> g' = g)"
    using lx by (simp add: data_fun_def Let_def r1 d1 quad_objective_def)
  moreover
  have "\<exists>g'. data_fun_con A g x constr data =
            Some (g', if data = dg_data_ref g then quad_objective A (x ! 0) (x ! 1) else dnan A,
                  constr[0 := dsub A (dadd A (dmul A (x ! 0) (x ! 0)) (dmul A (x ! 1) (x ! 1)))
                                     (dlit A 13)]) \<and>
            (dg_debug g = 0 \<and> data = dg_data_ref g \<longrightarrow> g' = g)"
    using lx lc by (simp add: data_fun_con_def Let_def r2 d2 quad_objective_def)
  ultimately show ?thesis by blast
qed

text \<open>
  The theorem at \<open>x = (0, 0)\<close> with \<^verbatim>\<open>debug\<close> off and \<^verbatim>\<open>data_ref\<close> at address 255:
  with \<^verbatim>\<open>data\<close> 255 the objective is 63 and nothing else changes; with \<^verbatim>\<open>data\<close> 7
  it is NaN, and "invalid data" is printed.
\<close>

theorem data_callbacks_value_witness:
  "(let g = \<lparr> dg_debug = 0, dg_data_ref = 255, dg_count_fun = 0, dg_count_fun_con = 0,
               dg_printed = [] \<rparr>;
        x = [Val 0, Val 0]; constr = [Val 0]
    in 2 \<le> length x \<and> 1 \<le> length constr \<and>
       data_fun exact g x 255 = Some (g, Val 63) \<and>
       data_fun_con exact g x constr 255 = Some (g, Val 63, [Val (- 13)]) \<and>
       data_fun exact g x 7 = Some (g\<lparr> dg_printed := [Invalid_data] \<rparr>, NaN) \<and>
       data_fun_con exact g x constr 7 =
         Some (g\<lparr> dg_printed := [Invalid_data] \<rparr>, NaN, [Val (- 13)]))"
proof -
  let ?g = "\<lparr> dg_debug = 0, dg_data_ref = 255, dg_count_fun = 0, dg_count_fun_con = 0,
               dg_printed = [] \<rparr>"
  let ?x = "[Val 0, Val 0]"
  let ?c = "[Val 0]"
  have h1: "2 \<le> length ?x" by simp
  have h2: "1 \<le> length ?c" by simp
  have q: "quad_objective exact (Val 0) (Val 0) = Val 63"
    by (simp add: quad_objective_def exact_def)
  have k: "dsub exact (dadd exact (dmul exact (Val 0) (Val 0)) (dmul exact (Val 0) (Val 0)))
             (dlit exact 13) = Val (- 13)" "dnan exact = NaN"
    by (simp_all add: exact_def)
  have m: "data_count_fun ?g = ?g" "data_count_fun_con ?g = ?g"
    by (simp_all add: data_count_fun_def data_count_fun_con_def)
  from data_callbacks_value [OF h1 h2, of exact ?g 255]
  have a: "data_fun exact ?g ?x 255 = Some (?g, Val 63)"
    "data_fun_con exact ?g ?x ?c 255 = Some (?g, Val 63, [Val (- 13)])"
    by (auto simp: q k)
  have b: "data_fun exact ?g ?x 7 = Some (?g\<lparr> dg_printed := [Invalid_data] \<rparr>, NaN)"
    "data_fun_con exact ?g ?x ?c 7 =
       Some (?g\<lparr> dg_printed := [Invalid_data] \<rparr>, NaN, [Val (- 13)])"
    by (simp_all add: data_fun_def data_fun_con_def m exact_def)
  from h1 h2 a b show ?thesis unfolding Let_def by simp
qed

section \<open>The exit status of lincoa\_example\<close>

lemma lincoa_example_call_3_2:
  "lincoa_example_call exact lib_at_3_2 =
     \<lparr> lo_x = [Val 3, Val 2], lo_f = Val (- 19 / 2), lo_cstrv = Val 0, lo_nf = 1, lo_rc = 0 \<rparr>"
  by (simp add: lincoa_example_call_def lib_at_3_2_def Let_def lincoa_fun_def exact_def
      exact_options_def)

lemma lincoa_example_call_no_step:
  "lincoa_example_call exact lib_no_step =
     \<lparr> lo_x = [Val 0, Val 0], lo_f = Val 0, lo_cstrv = Val 0, lo_nf = 0, lo_rc = 3 \<rparr>"
  by (simp add: lincoa_example_call_def lib_no_step_def Let_def exact_def)

text \<open>The arithmetic without rounding has the laws.\<close>

lemma is_nan_exact: "is_nan exact a \<longleftrightarrow> a = NaN"
  by (cases a) (simp_all add: is_nan_def exact_def)

lemma nan_laws_exact: "nan_laws exact"
proof -
  have "dgt exact a b = (\<not> dle exact a b)" if "a \<noteq> NaN" "b \<noteq> NaN" for a b
    using that by (cases a; cases b) (auto simp: exact_def)
  moreover have "dfabs exact (dsub exact a (dlit exact q)) \<noteq> NaN" if "a \<noteq> NaN" for a q
    using that by (cases a) (simp_all add: exact_def)
  moreover have "dlit exact q \<noteq> NaN" for q
    by (simp add: exact_def)
  ultimately show ?thesis by (simp add: nan_laws_def is_nan_exact)
qed

text \<open>
  C9. When the arithmetic has the laws of IEEE 754 above and \<^verbatim>\<open>prima_lincoa\<close> leaves
  numbers in \<^verbatim>\<open>x[0]\<close> and \<^verbatim>\<open>x[1]\<close>, \<^verbatim>\<open>main\<close> of lincoa\_example returns 0 or 1, and
  0 if and only if \<open>|x[0]-3| \<le> 2e-2\<close> and \<open>|x[1]-2| \<le> 2e-2\<close>. Any library that
  leaves the same \<^verbatim>\<open>x\<close> gives the same exit status, whatever return code, \<^verbatim>\<open>f\<close>,
  \<^verbatim>\<open>cstrv\<close> and \<^verbatim>\<open>nf\<close> it leaves.
\<close>

theorem lincoa_example_exit_status:
  assumes laws: "nan_laws A"
    and len: "length (lo_x (lincoa_example_call A P)) = 2"
    and x0: "\<not> is_nan A (lo_x (lincoa_example_call A P) ! 0)"
    and x1: "\<not> is_nan A (lo_x (lincoa_example_call A P) ! 1)"
  shows "\<exists>pr st. lincoa_example_main A P = Some (pr, st) \<and>
     (st = 0 \<or> st = 1) \<and>
     (st = 0 \<longleftrightarrow> within_tolerance A (lo_x (lincoa_example_call A P))) \<and>
     (\<forall>P'. lo_x (lincoa_example_call A P') = lo_x (lincoa_example_call A P) \<longrightarrow>
           (\<exists>pr'. lincoa_example_main A P' = Some (pr', st)))"
proof -
  let ?x = "lo_x (lincoa_example_call A P)"
  let ?d0 = "dfabs A (dsub A (?x ! 0) (dlit A 3))"
  let ?d1 = "dfabs A (dsub A (?x ! 1) (dlit A 2))"
  let ?tol = "dlit A (2 / 100)"
  let ?st = "if dgt A ?d0 ?tol \<or> dgt A ?d1 ?tol then 1 else (0::int)"
  from laws have tol: "\<not> is_nan A ?tol" by (simp add: nan_laws_def)
  from laws x0 have d0: "\<not> is_nan A ?d0" unfolding nan_laws_def by blast
  from laws x1 have d1: "\<not> is_nan A ?d1" unfolding nan_laws_def by blast
  from laws d0 tol have c0: "dgt A ?d0 ?tol = (\<not> dle A ?d0 ?tol)"
    unfolding nan_laws_def by blast
  from laws d1 tol have c1: "dgt A ?d1 ?tol = (\<not> dle A ?d1 ?tol)"
    unfolding nan_laws_def by blast
  have run: "lincoa_example_main A P' = Some
      (\<lparr> pr_x0 = ?x ! 0, pr_x1 = ?x ! 1, pr_f = lo_f (lincoa_example_call A P'),
         pr_cstrv = lo_cstrv (lincoa_example_call A P'), pr_rc = lo_rc (lincoa_example_call A P'),
         pr_msg = prima_get_rc_string P' (lo_rc (lincoa_example_call A P')),
         pr_evals = lo_nf (lincoa_example_call A P') \<rparr>, ?st)"
    if "lo_x (lincoa_example_call A P') = ?x" for P'
    using that len by (simp add: lincoa_example_main_def Let_def)
  have iff: "?st = 0 \<longleftrightarrow> within_tolerance A ?x"
    using c0 c1 by (auto simp: within_tolerance_def)
  have bit: "?st = 0 \<or> ?st = 1" by simp
  from run [of P] run iff bit show ?thesis by blast
qed

text \<open>
  The theorem at a library that leaves \<open>(3, 2)\<close>, within the tolerance: the exit status
  is 0; and at one that leaves \<open>(0, 0)\<close>, outside the tolerance: the exit status is 1.
\<close>

theorem lincoa_example_exit_status_witness:
  "nan_laws exact \<and>
   lo_x (lincoa_example_call exact lib_at_3_2) = [Val 3, Val 2] \<and>
   \<not> is_nan exact (Val 3) \<and> \<not> is_nan exact (Val 2) \<and>
   within_tolerance exact [Val 3, Val 2] \<and>
   map_option snd (lincoa_example_main exact lib_at_3_2) = Some 0 \<and>
   lo_x (lincoa_example_call exact lib_no_step) = [Val 0, Val 0] \<and>
   \<not> is_nan exact (Val 0) \<and>
   \<not> within_tolerance exact [Val 0, Val 0] \<and>
   map_option snd (lincoa_example_main exact lib_no_step) = Some 1"
proof -
  have n: "\<not> is_nan exact (Val 3)" "\<not> is_nan exact (Val 2)" "\<not> is_nan exact (Val 0)"
    by (simp_all add: is_nan_exact)
  have t: "within_tolerance exact [Val 3, Val 2]" "\<not> within_tolerance exact [Val 0, Val 0]"
    by (simp_all add: within_tolerance_def exact_def)
  have a: "map_option snd (lincoa_example_main exact lib_at_3_2) = Some 0"
    using lincoa_example_exit_status [OF nan_laws_exact, of lib_at_3_2] n t
    by (auto simp: lincoa_example_call_3_2)
  have b: "map_option snd (lincoa_example_main exact lib_no_step) = Some 1"
    using lincoa_example_exit_status [OF nan_laws_exact, of lib_no_step] n t
    by (auto simp: lincoa_example_call_no_step)
  from nan_laws_exact n t a b show ?thesis
    by (simp add: lincoa_example_call_3_2 lincoa_example_call_no_step)
qed

section \<open>The model of the solvers: invariants of a solve\<close>

text \<open>
  A property of the state that holds at the start, that every evaluation keeps and that
  does not depend on the controller's state holds when the controller returns.
\<close>

lemma controller_invariant:
  assumes "I s"
    and "\<And>s x ph s'. I s \<Longrightarrow> probe cb P s x ph = Inr s' \<Longrightarrow> I s'"
    and "\<And>s ph. I s \<Longrightarrow> I (s\<lparr> st_phase := ph \<rparr>)"
  shows "I (snd (controller K cb P s))"
  using assms
proof (induction K cb P s rule: controller.induct)
  case (1 K cb P s)
  note init = "1.prems"(1) and step = "1.prems"(2) and ph = "1.prems"(3)
  show ?case
  proof (cases "st_phase s")
    case Initializing
    show ?thesis
    proof (cases "k_initial K P (st_samples s)")
      case None
      from "1.IH"(1) [OF Initializing None ph [OF init] step ph] Initializing None
      show ?thesis by (subst controller.simps) simp
    next
      case (Some x)
      show ?thesis
      proof (cases "probe cb P s x Initializing")
        case (Inl t)
        with Initializing Some init show ?thesis by (subst controller.simps) simp
      next
        case (Inr s')
        from "1.IH"(2) [OF Initializing Some Inr step [OF init Inr] step ph] Initializing Some Inr
        show ?thesis by (subst controller.simps) simp
      qed
    qed
  next
    case Iterating
    show ?thesis
    proof (cases "k_iterate K P (st_samples s)")
      case (Trial x)
      show ?thesis
      proof (cases "probe cb P s x Iterating")
        case (Inl t)
        with Iterating Trial init show ?thesis by (subst controller.simps) simp
      next
        case (Inr s')
        from "1.IH"(3) [OF Iterating Trial Inr step [OF init Inr] step ph] Iterating Trial Inr
        show ?thesis by (subst controller.simps) simp
      qed
    next
      case Geometry_needed
      from "1.IH"(4) [OF Iterating Geometry_needed ph [OF init] step ph] Iterating Geometry_needed
      show ?thesis by (subst controller.simps) simp
    next
      case (Stop_converged r)
      with Iterating init show ?thesis by (subst controller.simps) simp
    next
      case (Stop_failed r)
      with Iterating init show ?thesis by (subst controller.simps) simp
    qed
  next
    case GeometryFixing
    show ?thesis
    proof (cases "probe cb P s (k_geometry K P (st_samples s)) Iterating")
      case (Inl t)
      with GeometryFixing init show ?thesis by (subst controller.simps) simp
    next
      case (Inr s')
      from "1.IH"(5) [OF GeometryFixing Inr step [OF init Inr] step ph] GeometryFixing Inr
      show ?thesis by (subst controller.simps) simp
    qed
  qed
qed


text \<open>What one evaluation changes.\<close>

lemma probe_Inr:
  assumes "probe cb P s x ph = Inr s'"
  shows "st_used s' = st_used s + 1" and "int (st_used s') \<le> cfg_maxfun (p_cfg P)"
    and "\<exists>f c. st_samples s' = st_samples s @ [\<lparr> s_x = into_box P x, s_f = f, s_constr = c \<rparr>]"
  using assms
  by (auto simp: probe_def evaluate_def split: if_splits prod.splits sum.splits fault.splits)

text \<open>The counter never passes the cap.\<close>

lemma controller_used:
  assumes "0 \<le> cfg_maxfun (p_cfg P)"
  shows "int (st_used (snd (controller K cb P (initial_state u)))) \<le> cfg_maxfun (p_cfg P)"
proof (rule controller_invariant [where I = "\<lambda>s. int (st_used s) \<le> cfg_maxfun (p_cfg P)"])
  show "int (st_used (initial_state u)) \<le> cfg_maxfun (p_cfg P)"
    using assms by (simp add: initial_state_def)
next
  fix s :: "'a state" and x ph s'
  assume "probe cb P s x ph = Inr s'"
  then show "int (st_used s') \<le> cfg_maxfun (p_cfg P)" by (rule probe_Inr(2))
next
  fix s :: "'a state" and ph
  assume "int (st_used s) \<le> cfg_maxfun (p_cfg P)"
  then show "int (st_used (s\<lparr> st_phase := ph \<rparr>)) \<le> cfg_maxfun (p_cfg P)" by simp
qed

text \<open>Every point evaluated has been moved into the box.\<close>

lemma controller_samples:
  "\<forall>a \<in> set (st_samples (snd (controller K cb P (initial_state u)))). \<exists>y. s_x a = into_box P y"
proof (rule controller_invariant [where I = "\<lambda>s. \<forall>a \<in> set (st_samples s). \<exists>y. s_x a = into_box P y"])
  show "\<forall>a \<in> set (st_samples (initial_state u)). \<exists>y. s_x a = into_box P y"
    by (simp add: initial_state_def)
next
  fix s :: "'a state" and x ph s'
  assume "\<forall>a \<in> set (st_samples s). \<exists>y. s_x a = into_box P y"
    and "probe cb P s x ph = Inr s'"
  then show "\<forall>a \<in> set (st_samples s'). \<exists>y. s_x a = into_box P y"
    using probe_Inr(3) [of cb P s x ph s'] by fastforce
next
  fix s :: "'a state" and ph
  assume "\<forall>a \<in> set (st_samples s). \<exists>y. s_x a = into_box P y"
  then show "\<forall>a \<in> set (st_samples (s\<lparr> st_phase := ph \<rparr>)). \<exists>y. s_x a = into_box P y"
    by simp
qed

section \<open>The model of the solvers: the constraint violation\<close>

lemma fold_max_ge: "(a::real) \<le> fold max xs a"
proof (induction xs arbitrary: a)
  case Nil
  show ?case by simp
next
  case (Cons x xs)
  have "a \<le> max x a" by simp
  also have "\<dots> \<le> fold max xs (max x a)" by (rule Cons.IH)
  finally show ?case by simp
qed

lemma max_violation_nonneg: "0 \<le> max_violation gs"
  by (simp add: max_violation_def fold_max_ge)

lemma max_violation_zero: "\<forall>g \<in> set gs. g \<le> 0 \<Longrightarrow> max_violation gs = 0"
proof -
  assume "\<forall>g \<in> set gs. g \<le> 0"
  then have "filter (\<lambda>g. 0 < g) gs = []" by (auto simp: filter_empty_conv)
  then show ?thesis by (simp add: max_violation_def)
qed

text \<open>A point moved into a box with consistent bounds violates no bound.\<close>

lemma bound_amounts_project:
  "consistent xl xu \<Longrightarrow> \<forall>g \<in> set (bound_amounts xl xu (project xl xu y)). g \<le> 0"
proof (induction xl xu y rule: project.induct)
  case (1 l ls u us v vs)
  then have rest: "\<forall>g \<in> set (bound_amounts ls us (project ls us vs)). g \<le> 0"
    by (cases l; cases u) auto
  from "1.prems" have "\<forall>g \<in> set ((case l of Unbounded \<Rightarrow> [] | Bound a \<Rightarrow> [a - clip l u v]) @
     (case u of Unbounded \<Rightarrow> [] | Bound b \<Rightarrow> [clip l u v - b])). g \<le> 0"
    by (cases l; cases u) (auto simp: clip_def)
  with rest show ?case by auto
qed auto

lemma best_of_in: "best_of pref b as \<in> set (b # as)"
  by (induction as arbitrary: b) auto


section \<open>The model of the solvers: the result of a solve\<close>

lemma report_nf: "r_nf (report K P t s) = st_used s"
  by (simp add: report_def Let_def split: list.splits)

lemma solve_invalid:
  "\<not> valid_input K P \<Longrightarrow>
   solve K cb P u =
     \<lparr> o_result = \<lparr> r_x = p_x0 P, r_f = None, r_cstrv = 0, r_nlconstr = [], r_nf = 0,
                     r_rc = RC_invalid_input \<rparr>,
       o_caller = u \<rparr>"
  by (simp add: solve_def)

lemma solve_nf:
  assumes "0 \<le> cfg_maxfun (p_cfg P)"
  shows "int (r_nf (o_result (solve K cb P u))) \<le> cfg_maxfun (p_cfg P)"
proof (cases "valid_input K P")
  case True
  then show ?thesis
    using controller_used [OF assms, of K cb u]
    by (auto simp: solve_def report_nf split: prod.splits)
next
  case False
  with assms show ?thesis by (simp add: solve_invalid)
qed

lemma cstrv_nonneg: "0 \<le> cstrv P x c"
  by (simp add: cstrv_def max_violation_nonneg)

lemma report_cstrv_nonneg: "0 \<le> r_cstrv (report K P t s)"
  by (simp add: report_def Let_def cstrv_nonneg split: list.splits)

lemma cstrv_into_box:
  assumes "valid_input K P"
    and "has_linear (p_variant P) \<longrightarrow> cfg_m_ineq (p_cfg P) = 0 \<and> cfg_m_eq (p_cfg P) = 0"
    and "has_nonlinear (p_variant P) \<longrightarrow> cfg_m_nlcon (p_cfg P) = 0"
  shows "cstrv P (into_box P y) c = 0"
proof -
  from assms(1,2) have lin: "has_linear (p_variant P) \<longrightarrow>
      cfg_A_ineq (p_cfg P) = [] \<and> cfg_A_eq (p_cfg P) = []"
    by (auto simp: valid_input_def)
  have "\<forall>g \<in> set (amounts P (into_box P y) c). g \<le> 0"
  proof (cases "has_bounds (p_variant P)")
    case True
    with assms(1) have "consistent (p_xl P) (p_xu P)" by (simp add: valid_input_def)
    from bound_amounts_project [OF this, of y] True lin assms(3) show ?thesis
      by (auto simp: amounts_def into_box_def ineq_amounts_def eq_amounts_def)
  next
    case False
    then have "\<not> has_linear (p_variant P)" "\<not> has_nonlinear (p_variant P)"
      by (auto simp: has_bounds_def has_linear_def has_nonlinear_def)
    with False show ?thesis by (simp add: amounts_def)
  qed
  then show ?thesis by (simp add: cstrv_def max_violation_zero)
qed

lemma solve_cstrv_nonneg: "0 \<le> r_cstrv (o_result (solve K cb P u))"
  by (cases "valid_input K P") (simp_all add: solve_def report_cstrv_nonneg split: prod.splits)

lemma solve_cstrv_zero:
  assumes "has_linear (p_variant P) \<longrightarrow> cfg_m_ineq (p_cfg P) = 0 \<and> cfg_m_eq (p_cfg P) = 0"
    and "has_nonlinear (p_variant P) \<longrightarrow> cfg_m_nlcon (p_cfg P) = 0"
  shows "r_cstrv (o_result (solve K cb P u)) = 0"
proof (cases "valid_input K P")
  case False
  then show ?thesis by (simp add: solve_invalid)
next
  case True
  obtain t s where ts: "controller K cb P (initial_state u) = (t, s)" by (cases "controller K cb P (initial_state u)")
  with controller_samples [of K cb P u]
  have box: "\<forall>a \<in> set (st_samples s). \<exists>y. s_x a = into_box P y" by simp
  have "r_cstrv (report K P t s) = 0"
  proof (cases "st_samples s")
    case Nil
    then show ?thesis by (simp add: report_def cstrv_into_box [OF True assms])
  next
    case (Cons a as)
    let ?b = "best_of (\<lambda>a b. preferred (k_tol K) (merit P a) (merit P b)) a as"
    have "?b \<in> set (st_samples s)" using best_of_in [of _ a as] Cons by simp
    with box obtain y where "s_x ?b = into_box P y" by blast
    with Cons show ?thesis by (simp add: report_def Let_def cstrv_into_box [OF True assms])
  qed
  with True ts show ?thesis by (simp add: solve_def)
qed

section \<open>The model of the solvers: the five entry points\<close>

lemmas entry_defs = uobyqa_def newuoa_def bobyqa_def lincoa_def cobyla_def

text \<open>
  C1, on the model of the solvers. Each of the five entry points, on every input with a
  non-negative \<open>maxfun\<close>, returns a result whose evaluation count is at most \<open>maxfun\<close>,
  whatever the numerical components and the callback are.
\<close>

theorem evaluations_within_maxfun:
  assumes "0 \<le> cfg_maxfun cfg"
    and "out \<in> {uobyqa K fn n x cfg u, newuoa K fn n x cfg u, bobyqa K fn n x xl xu cfg u,
                lincoa K fn n x xl xu cfg u, cobyla K fc n x xl xu cfg u}"
  shows "int (r_nf (o_result out)) \<le> cfg_maxfun cfg"
proof -
  have "int (r_nf (o_result (solve K cb P u))) \<le> cfg_maxfun cfg" if "p_cfg P = cfg" for cb P
    using solve_nf [of P K cb u] assms(1) that by simp
  with assms(2) show ?thesis unfolding entry_defs by auto
qed

text \<open>
  C3, on the model of the solvers. For each of the five entry points the \<open>cstrv\<close> of the
  result is at least 0; it is 0 for \<open>uobyqa\<close>, \<open>newuoa\<close> and \<open>bobyqa\<close>, and for every
  entry point when no linear and no nonlinear constraint is declared. (The drivers pass
  no \<^verbatim>\<open>cstrv\<close> slot to \<^verbatim>\<open>prima_uobyqa\<close>, \<^verbatim>\<open>prima_newuoa\<close> and \<^verbatim>\<open>prima_bobyqa\<close> and
  print the 0 they initialised it with.)
\<close>

theorem cstrv_nonnegative:
  assumes "out \<in> {uobyqa K fn n x cfg u, newuoa K fn n x cfg u, bobyqa K fn n x xl xu cfg u,
                lincoa K fn n x xl xu cfg u, cobyla K fc n x xl xu cfg u}"
  shows "0 \<le> r_cstrv (o_result out) \<and>
     (out \<in> {uobyqa K fn n x cfg u, newuoa K fn n x cfg u, bobyqa K fn n x xl xu cfg u} \<longrightarrow>
        r_cstrv (o_result out) = 0) \<and>
     (cfg_m_ineq cfg = 0 \<and> cfg_m_eq cfg = 0 \<and> cfg_m_nlcon cfg = 0 \<longrightarrow>
        r_cstrv (o_result out) = 0)"
proof -
  have a: "0 \<le> r_cstrv (o_result out)"
    using assms solve_cstrv_nonneg unfolding entry_defs by auto
  have b: "r_cstrv (o_result out) = 0"
    if "out \<in> {uobyqa K fn n x cfg u, newuoa K fn n x cfg u, bobyqa K fn n x xl xu cfg u}"
    using that unfolding entry_defs
    by (auto intro!: solve_cstrv_zero simp: has_linear_def has_nonlinear_def)
  have c: "r_cstrv (o_result out) = 0"
    if "cfg_m_ineq cfg = 0 \<and> cfg_m_eq cfg = 0 \<and> cfg_m_nlcon cfg = 0"
    using assms that unfolding entry_defs
    by (auto intro!: solve_cstrv_zero)
  from a b c show ?thesis by blast
qed

section \<open>The model of the solvers: runs\<close>

text \<open>
  \<open>lincoa\<close> from \<open>(8, 8)\<close> in the box \<open>[-6, 6]\<^sup>2\<close> with the constraint \<open>x1 + x2 \<le> 10\<close> and
  a budget of two evaluations: both points evaluated are \<open>(6, 6)\<close>, which violates the
  constraint by 2.
\<close>

lemma run_lincoa:
  "lincoa pattern_search sum_squares 2 [8, 8] [Bound (- 6), Bound (- 6)] [Bound 6, Bound 6]
     example_cfg 0 =
   \<lparr> o_result = \<lparr> r_x = [6, 6], r_f = Some 72, r_cstrv = 2, r_nlconstr = [], r_nf = 2,
                   r_rc = RC_budget \<rparr>,
     o_caller = 2 \<rparr>"
  by (simp add: lincoa_def solve_def valid_input_def has_bounds_def has_linear_def
      has_nonlinear_def example_cfg_def pattern_search_def initial_state_def controller.simps
      probe_def evaluate_def into_box_def clip_def objective_only_def sum_squares_def report_def
      Let_def preferred_def merit_def cstrv_def amounts_def max_violation_def ineq_amounts_def
      eq_amounts_def dot_def)

text \<open>The same run of \<open>bobyqa\<close>, which has no linear constraint.\<close>

lemma run_bobyqa:
  "bobyqa pattern_search sum_squares 2 [8, 8] [Bound (- 6), Bound (- 6)] [Bound 6, Bound 6]
     example_cfg 0 =
   \<lparr> o_result = \<lparr> r_x = [6, 6], r_f = Some 72, r_cstrv = 0, r_nlconstr = [], r_nf = 2,
                   r_rc = RC_budget \<rparr>,
     o_caller = 2 \<rparr>"
  by (simp add: bobyqa_def solve_def valid_input_def has_bounds_def has_linear_def
      has_nonlinear_def example_cfg_def pattern_search_def initial_state_def controller.simps
      probe_def evaluate_def into_box_def clip_def objective_only_def sum_squares_def report_def
      Let_def preferred_def merit_def cstrv_def amounts_def max_violation_def)

text \<open>C1 at the run of \<open>lincoa\<close>: two evaluations, \<open>maxfun\<close> is 2.\<close>

theorem evaluations_within_maxfun_witness:
  "0 \<le> cfg_maxfun example_cfg \<and>
   r_nf (o_result (lincoa pattern_search sum_squares 2 [8, 8] [Bound (- 6), Bound (- 6)]
      [Bound 6, Bound 6] example_cfg 0)) = 2 \<and>
   int (r_nf (o_result (lincoa pattern_search sum_squares 2 [8, 8] [Bound (- 6), Bound (- 6)]
      [Bound 6, Bound 6] example_cfg 0))) \<le> cfg_maxfun example_cfg"
proof -
  let ?l = "lincoa pattern_search sum_squares 2 [8, 8] [Bound (- 6), Bound (- 6)]
      [Bound 6, Bound 6] example_cfg 0"
  have h: "0 \<le> cfg_maxfun example_cfg" by (simp add: example_cfg_def)
  have m: "?l \<in> {uobyqa pattern_search sum_squares 2 [8, 8] example_cfg 0,
      newuoa pattern_search sum_squares 2 [8, 8] example_cfg 0,
      bobyqa pattern_search sum_squares 2 [8, 8] [Bound (- 6), Bound (- 6)] [Bound 6, Bound 6]
        example_cfg 0, ?l,
      cobyla pattern_search (objective_only sum_squares) 2 [8, 8] [Bound (- 6), Bound (- 6)]
        [Bound 6, Bound 6] example_cfg 0}"
    by simp
  from evaluations_within_maxfun [OF h m] h show ?thesis by (simp add: run_lincoa)
qed

text \<open>C3 at the runs of \<open>lincoa\<close>, with \<open>cstrv = 2\<close>, and of \<open>bobyqa\<close>, with \<open>cstrv = 0\<close>.\<close>

theorem cstrv_nonnegative_witness:
  "r_cstrv (o_result (lincoa pattern_search sum_squares 2 [8, 8] [Bound (- 6), Bound (- 6)]
      [Bound 6, Bound 6] example_cfg 0)) = 2 \<and>
   0 \<le> r_cstrv (o_result (lincoa pattern_search sum_squares 2 [8, 8] [Bound (- 6), Bound (- 6)]
      [Bound 6, Bound 6] example_cfg 0)) \<and>
   r_x (o_result (bobyqa pattern_search sum_squares 2 [8, 8] [Bound (- 6), Bound (- 6)]
      [Bound 6, Bound 6] example_cfg 0)) = [6, 6] \<and>
   r_cstrv (o_result (bobyqa pattern_search sum_squares 2 [8, 8] [Bound (- 6), Bound (- 6)]
      [Bound 6, Bound 6] example_cfg 0)) = 0"
proof -
  let ?l = "lincoa pattern_search sum_squares 2 [8, 8] [Bound (- 6), Bound (- 6)]
      [Bound 6, Bound 6] example_cfg 0"
  let ?b = "bobyqa pattern_search sum_squares 2 [8, 8] [Bound (- 6), Bound (- 6)]
      [Bound 6, Bound 6] example_cfg 0"
  have l: "?l \<in> {uobyqa pattern_search sum_squares 2 [8, 8] example_cfg 0,
      newuoa pattern_search sum_squares 2 [8, 8] example_cfg 0, ?b, ?l,
      cobyla pattern_search (objective_only sum_squares) 2 [8, 8] [Bound (- 6), Bound (- 6)]
        [Bound 6, Bound 6] example_cfg 0}"
    by simp
  have b: "?b \<in> {uobyqa pattern_search sum_squares 2 [8, 8] example_cfg 0,
      newuoa pattern_search sum_squares 2 [8, 8] example_cfg 0, ?b, ?l,
      cobyla pattern_search (objective_only sum_squares) 2 [8, 8] [Bound (- 6), Bound (- 6)]
        [Bound 6, Bound 6] example_cfg 0}"
    by simp
  from cstrv_nonnegative [OF l] have "0 \<le> r_cstrv (o_result ?l)" by blast
  moreover from cstrv_nonnegative [OF b] have "r_cstrv (o_result ?b) = 0" by blast
  ultimately show ?thesis by (simp add: run_lincoa run_bobyqa)
qed

end
